theory Spec2Isabelle
  imports Complex_Main
begin

section \<open>Strings of the platform\<close>

text \<open>
  A string is the list of the bytes of its UTF-8 text. \<open>startsWith\<close>, \<open>includes_str\<close> (the method \<open>includes\<close>)
  and \<open>trim\<close> are the methods of the same names of a JavaScript string, read on that
  encoding: a needle of ASCII characters occurs in the bytes exactly where it occurs in
  the text, and \<open>trim\<close> removes from both ends every white space and line terminator
  of the language (TAB, LF, VT, FF, CR, SP, NBSP, U+1680, U+2000 to U+200A, U+2028,
  U+2029, U+202F, U+205F, U+3000 and U+FEFF), each listed below by its encoding.
\<close>

fun startsWith :: "string \<Rightarrow> string \<Rightarrow> bool" where
  "startsWith s [] = True"
| "startsWith [] (p # ps) = False"
| "startsWith (c # cs) (p # ps) = (c = p \<and> startsWith cs ps)"

fun includes_str :: "string \<Rightarrow> string \<Rightarrow> bool" where
  "includes_str [] sub = (sub = [])"
| "includes_str (c # cs) sub = (startsWith (c # cs) sub \<or> includes_str cs sub)"

definition white_space :: "string list" where
  "white_space =
     [[CHR 0x09], [CHR 0x0A], [CHR 0x0B], [CHR 0x0C], [CHR 0x0D], [CHR 0x20],
      [CHR 0xC2, CHR 0xA0],
      [CHR 0xE1, CHR 0x9A, CHR 0x80],
      [CHR 0xE2, CHR 0x80, CHR 0x80], [CHR 0xE2, CHR 0x80, CHR 0x81],
      [CHR 0xE2, CHR 0x80, CHR 0x82], [CHR 0xE2, CHR 0x80, CHR 0x83],
      [CHR 0xE2, CHR 0x80, CHR 0x84], [CHR 0xE2, CHR 0x80, CHR 0x85],
      [CHR 0xE2, CHR 0x80, CHR 0x86], [CHR 0xE2, CHR 0x80, CHR 0x87],
      [CHR 0xE2, CHR 0x80, CHR 0x88], [CHR 0xE2, CHR 0x80, CHR 0x89],
      [CHR 0xE2, CHR 0x80, CHR 0x8A],
      [CHR 0xE2, CHR 0x80, CHR 0xA8], [CHR 0xE2, CHR 0x80, CHR 0xA9],
      [CHR 0xE2, CHR 0x80, CHR 0xAF],
      [CHR 0xE2, CHR 0x81, CHR 0x9F],
      [CHR 0xE3, CHR 0x80, CHR 0x80],
      [CHR 0xEF, CHR 0xBB, CHR 0xBF]]"

text \<open>
  \<open>strip ws s\<close> removes from the front of \<open>s\<close> every leading occurrence of a sequence
  of \<open>ws\<close>. An empty sequence removes nothing, so it ends the scan.
\<close>

function strip :: "string list \<Rightarrow> string \<Rightarrow> string" where
  "strip ws s =
     (case find (startsWith s) ws of
        None \<Rightarrow> s
      | Some w \<Rightarrow> if w = [] then s else strip ws (drop (length w) s))"
  by pat_completeness auto

termination strip
proof (relation "measure (\<lambda>(ws, s). length s)")
  show "wf (measure (\<lambda>(ws, s). length s))" by simp
next
  fix ws :: "string list" and s w :: string
  assume f: "find (startsWith s) ws = Some w" and ne: "w \<noteq> []"
  from f have "startsWith s w" by (auto simp: find_Some_iff)
  then have "s \<noteq> []" using ne by (cases s; cases w) auto
  with ne show "((ws, drop (length w) s), (ws, s)) \<in> measure (\<lambda>(ws, s). length s)"
    by (cases s; cases w) auto
qed

declare strip.simps [simp del]

definition trimStart :: "string \<Rightarrow> string" where
  "trimStart s = strip white_space s"

definition trimEnd :: "string \<Rightarrow> string" where
  "trimEnd s = rev (strip (map rev white_space) (rev s))"

definition trim :: "string \<Rightarrow> string" where
  "trim s = trimEnd (trimStart s)"

text \<open>The decimal text of a natural number, as a template literal renders it.\<close>

definition digit :: "nat \<Rightarrow> char" where
  "digit d = char_of (48 + d)"

fun decimal :: "nat \<Rightarrow> string" where
  "decimal n = (if n < 10 then [digit n] else decimal (n div 10) @ [digit (n mod 10)])"

declare decimal.simps [simp del]

section \<open>Values of the platform\<close>

text \<open>
  A parsed JSON value. An object is the list of its own properties, in their order; a
  property is read with \<open>map_of\<close>. The program never computes with a number of the
  response, it only renders it, so a number is held as the text its conversion to a
  string gives.
\<close>

datatype json =
    JNull
  | JBool bool
  | JNumber string
  | JString string
  | JArray "json list"
  | JObject "(string \<times> json) list"

text \<open>
  A thrown value: an instance of \<open>Error\<close> with its message, or anything else. The
  messages of the errors that the engine itself raises are the engine's wording; the
  constants below stand for them.
\<close>

datatype exn = ErrorObj string | NonError

definition body_used_message :: string where
  "body_used_message = ''body stream already read''"

definition syntax_error_message :: string where
  "syntax_error_message = ''Unexpected end of JSON input''"

definition null_property_message :: string where
  "null_property_message = ''Cannot read properties of null''"

definition not_primitive_message :: string where
  "not_primitive_message = ''Cannot convert object to primitive value''"

text \<open>\<open>e instanceof Error ? e.message : fallback\<close>, the handler of each intent.\<close>

definition message_or :: "exn \<Rightarrow> string \<Rightarrow> string" where
  "message_or e fallback = (case e of ErrorObj m \<Rightarrow> m | NonError \<Rightarrow> fallback)"

text \<open>
  \<open>a ?? b\<close>: the left operand unless it is \<open>undefined\<close> (\<open>None\<close>) or \<open>null\<close>.
\<close>

definition coalesce :: "json option \<Rightarrow> json option \<Rightarrow> json option" where
  "coalesce a b = (case a of None \<Rightarrow> b | Some JNull \<Rightarrow> b | Some v \<Rightarrow> Some v)"

text \<open>
  \<open>d?.k\<close> for one of the keys the program reads (\<open>feedback\<close>, \<open>message\<close>, \<open>result\<close>,
  \<open>error\<close>, \<open>detail\<close>): \<open>undefined\<close> when \<open>d\<close> is \<open>undefined\<close> or \<open>null\<close>; the own
  property of an object; \<open>undefined\<close> on every other value, whose prototype has no
  property of these names.
\<close>

definition opt_prop :: "json option \<Rightarrow> string \<Rightarrow> json option" where
  "opt_prop d k = (case d of Some (JObject kvs) \<Rightarrow> map_of kvs k | _ \<Rightarrow> None)"

text \<open>\<open>typeof v === 'string' ? v : undefined\<close>\<close>

definition if_string :: "json option \<Rightarrow> json option" where
  "if_string v = (case v of Some (JString s) \<Rightarrow> Some (JString s) | _ \<Rightarrow> None)"

text \<open>
  The conversion of a value to a string in a template literal. An array joins the
  conversions of its elements with commas, \<open>null\<close> giving the empty string; an object
  gives \<open>[object Object]\<close>, unless an own property \<open>toString\<close> hides the method of the
  prototype: then no method yields a primitive value and a TypeError is thrown.
\<close>

fun join_results :: "(exn + string) list \<Rightarrow> exn + string" where
  "join_results [] = Inr []"
| "join_results [r] = r"
| "join_results (r # rs) =
     (case r of
        Inl e \<Rightarrow> Inl e
      | Inr t \<Rightarrow> (case join_results rs of Inl e \<Rightarrow> Inl e | Inr u \<Rightarrow> Inr (t @ '','' @ u)))"

fun ToString :: "json \<Rightarrow> exn + string" where
  "ToString JNull = Inr ''null''"
| "ToString (JBool b) = Inr (if b then ''true'' else ''false'')"
| "ToString (JNumber t) = Inr t"
| "ToString (JString s) = Inr s"
| "ToString (JArray xs) =
     join_results (map (\<lambda>x. case x of JNull \<Rightarrow> Inr [] | _ \<Rightarrow> ToString x) xs)"
| "ToString (JObject kvs) =
     (if ''toString'' \<in> set (map fst kvs) then Inl (ErrorObj not_primitive_message)
      else Inr ''[object Object]'')"

definition ToString_opt :: "json option \<Rightarrow> exn + string" where
  "ToString_opt v = (case v of None \<Rightarrow> Inr ''undefined'' | Some j \<Rightarrow> ToString j)"

section \<open>The response of the transport\<close>

text \<open>
  What a \<open>Response\<close> of \<open>fetch\<close> gives the program: the status, the value of
  \<open>headers.get('content-type')\<close> (\<open>None\<close> for \<open>null\<close>), the text of the body (\<open>None\<close>
  for a null body) and what parsing that text as JSON yields (\<open>None\<close> when the parser
  rejects it).

  The body is a stream that is read once. \<open>res_json\<close> and \<open>res_text\<close> take the flag
  \<open>used\<close> (the stream was read before) and return it updated: reading a body that was
  read rejects with a TypeError, whether the first reading succeeded or not. A null
  body is never used: it reads as the empty text, which is not JSON.
\<close>

record response =
  status :: nat
  content_type :: "string option"
  body :: "string option"
  parsed :: "json option"

definition res_ok :: "response \<Rightarrow> bool" where
  "res_ok res = (200 \<le> status res \<and> status res \<le> 299)"

definition res_json :: "response \<Rightarrow> bool \<Rightarrow> (exn + json) \<times> bool" where
  "res_json res used =
     (case body res of
        None \<Rightarrow> (Inl (ErrorObj syntax_error_message), used)
      | Some t \<Rightarrow>
          if used then (Inl (ErrorObj body_used_message), used)
          else (case parsed res of
                  None \<Rightarrow> (Inl (ErrorObj syntax_error_message), True)
                | Some j \<Rightarrow> (Inr j, True)))"

definition res_text :: "response \<Rightarrow> bool \<Rightarrow> (exn + string) \<times> bool" where
  "res_text res used =
     (case body res of
        None \<Rightarrow> (Inr [], used)
      | Some t \<Rightarrow>
          if used then (Inl (ErrorObj body_used_message), used)
          else (Inr t, True))"

section \<open>Reading a response: \<open>readBody\<close>, \<open>toFeedback\<close>, \<open>labelFor\<close>\<close>

datatype Feedback = TOO_HIGH | TOO_LOW | CORRECT

text \<open>The object \<open>readBody\<close> resolves with; an absent property is \<open>None\<close>.\<close>

record parsed_body =
  ok :: bool
  data :: "json option"
  text_v :: "string option"
  err :: "string option"

text \<open>
  \<open>j['error'] ?? j['message'] ?? j['detail']\<close> and the choice of the error text. The
  first access throws a TypeError when \<open>j\<close> is \<open>null\<close>.
\<close>

definition failure_text :: "response \<Rightarrow> json \<Rightarrow> exn + string" where
  "failure_text res j =
     (case j of
        JNull \<Rightarrow> Inl (ErrorObj null_property_message)
      | _ \<Rightarrow>
          (let msg = coalesce (coalesce (opt_prop (Some j) ''error'')
                                        (opt_prop (Some j) ''message''))
                              (opt_prop (Some j) ''detail'')
           in Inr (case msg of
                     Some (JString m) \<Rightarrow> m
                   | _ \<Rightarrow> ''HTTP '' @ decimal (status res))))"

text \<open>
  The \<open>try\<close> block of the failure branch: \<open>Some\<close> text when it returned, \<open>None\<close> when
  control falls through to the statements after it (the content type does not name
  JSON, or the block threw and the empty \<open>catch\<close> swallowed it), with the state of
  the body stream.
\<close>

definition failure_try :: "response \<Rightarrow> string \<Rightarrow> string option \<times> bool" where
  "failure_try res ct =
     (if includes_str ct ''application/json'' then
        (case res_json res False of
           (Inl e, used) \<Rightarrow> (None, used)
         | (Inr j, used) \<Rightarrow>
             (case failure_text res j of
                Inl e \<Rightarrow> (None, used)
              | Inr m \<Rightarrow> (Some m, used)))
      else (None, False))"

text \<open>\<open>res.headers.get('content-type') || ''\<close>\<close>

definition ct_of :: "response \<Rightarrow> string" where
  "ct_of res = (case content_type res of None \<Rightarrow> [] | Some c \<Rightarrow> c)"

definition readBody :: "response \<Rightarrow> exn + parsed_body" where
  "readBody res =
     (let ct = ct_of res in
      if res_ok res then
        (if includes_str ct ''application/json'' then
           (case fst (res_json res False) of
              Inr j \<Rightarrow> Inr \<lparr>ok = True, data = Some j, text_v = None, err = None\<rparr>
            | Inl e \<Rightarrow> Inr \<lparr>ok = True, data = None, text_v = None, err = None\<rparr>)
         else
           (case fst (res_text res False) of
              Inl e \<Rightarrow> Inl e
            | Inr t \<Rightarrow> Inr \<lparr>ok = True, data = None, text_v = Some (trim t), err = None\<rparr>))
      else
        (case failure_try res ct of
           (Some m, used) \<Rightarrow> Inr \<lparr>ok = False, data = None, text_v = None, err = Some m\<rparr>
         | (None, used) \<Rightarrow>
             (case fst (res_text res used) of
                Inl e \<Rightarrow> Inl e
              | Inr t \<Rightarrow>
                  Inr \<lparr>ok = False, data = None, text_v = None,
                       err = Some (if trim t = [] then ''HTTP '' @ decimal (status res)
                                   else trim t)\<rparr>)))"

text \<open>
  The test \<open>raw === 'TOO_HIGH' || raw === 'TOO_LOW' || raw === 'CORRECT'\<close> and the
  value returned: \<open>raw\<close> when it holds, \<open>null\<close> (\<open>None\<close>) otherwise.
\<close>

definition as_feedback :: "json option \<Rightarrow> Feedback option" where
  "as_feedback raw =
     (if raw = Some (JString ''TOO_HIGH'') then Some TOO_HIGH
      else if raw = Some (JString ''TOO_LOW'') then Some TOO_LOW
      else if raw = Some (JString ''CORRECT'') then Some CORRECT
      else None)"

definition toFeedback :: "parsed_body \<Rightarrow> Feedback option" where
  "toFeedback b =
     (let raw =
            coalesce
              (coalesce
                 (coalesce (opt_prop (data b) ''feedback'')
                           (if_string (opt_prop (data b) ''message'')))
                 (if_string (opt_prop (data b) ''result'')))
              (map_option JString (text_v b))
      in as_feedback raw)"

fun labelFor :: "Feedback \<Rightarrow> string" where
  "labelFor TOO_HIGH = ''Too High''"
| "labelFor TOO_LOW = ''Too Low''"
| "labelFor CORRECT = ''Correct''"

section \<open>The state of the game and the transport\<close>

text \<open>
  The state variables of the component \<open>App\<close>. The counter \<open>tries\<close> is a number that
  only ever holds a count of guesses; it is a natural number here, exact for every
  count below \<open>2 ^ 53\<close>.
\<close>

record state =
  started :: bool
  value_v :: string
  error :: string
  msg :: string
  tries :: nat
  loading :: bool
  finished :: bool

definition init_state :: state where
  "init_state =
     \<lparr>started = False, value_v = [], error = [], msg = [], tries = 0,
      loading = False, finished = False\<rparr>"

text \<open>
  A number of the language: \<open>NaN\<close>, an infinity (\<open>True\<close> for the positive one) or a
  finite value. \<open>Number(value)\<close> is the engine's conversion of a string, \<open>js_Number\<close>
  below; the handler that needs it takes the conversion as the parameter \<open>Number\<close>, so
  that what does not depend on the conversion is proved for every one.
\<close>

datatype number = NaN | Infinity bool | Finite rat

definition isInteger :: "number \<Rightarrow> bool" where
  "isInteger n = (case n of Finite q \<Rightarrow> of_int \<lfloor>q\<rfloor> = q | _ \<Rightarrow> False)"

fun less_num :: "number \<Rightarrow> number \<Rightarrow> bool" where
  "less_num (Finite a) (Finite b) = (a < b)"
| "less_num (Finite a) (Infinity p) = p"
| "less_num (Infinity p) (Finite b) = (\<not> p)"
| "less_num (Infinity p) (Infinity q) = (\<not> p \<and> q)"
| "less_num NaN n = False"
| "less_num n NaN = False"

definition isBlank :: "string \<Rightarrow> bool" where
  "isBlank s = (trim s = [])"

text \<open>
  The conversion \<open>Number(value)\<close> of a string (StringToNumber of the language).
  White space is trimmed; the empty string is 0; a literal \<open>0x\<close>, \<open>0o\<close> or \<open>0b\<close>
  with digits of its radix is that integer; otherwise an optional sign is followed by
  \<open>Infinity\<close> or by a decimal literal (digits, an optional point and digits, with a
  digit on one side of the point at least, and an optional exponent); any other string
  is \<open>NaN\<close>. The mathematical value of the literal is rounded to the nearest double,
  ties to the even significand, and to an infinity from \<open>2 ^ 1024 - 2 ^ 970\<close> on. For
  a literal of more than 20 significant digits the language lets an engine round a
  value cut after the 20th digit; the doubles it may give are the two nearest, and
  engines give the nearest, as here. The two zeros are one value, \<open>Finite 0\<close>.

  \<open>pow b e\<close> is the power with an integer exponent.
\<close>

definition pow :: "rat \<Rightarrow> int \<Rightarrow> rat" where
  "pow b e = (if 0 \<le> e then b ^ nat e else 1 / b ^ nat (- e))"

text \<open>
  The binary exponent \<open>e\<close> of a positive value \<open>a\<close>, with \<open>2 ^ e \<le> a < 2 ^ (e + 1)\<close>:
  counted up by halving from 1 on, down by doubling below 1.
\<close>

function log2_up :: "rat \<Rightarrow> int" where
  "log2_up a = (if 2 \<le> a then log2_up (a / 2) + 1 else 0)"
  by pat_completeness auto
termination
proof (relation "measure (\<lambda>a. nat \<lfloor>a\<rfloor>)")
  show "wf (measure (\<lambda>a::rat. nat \<lfloor>a\<rfloor>))" by simp
next
  fix a :: rat
  assume a: "2 \<le> a"
  then have "2 \<le> \<lfloor>a\<rfloor>" by (simp add: le_floor_iff)
  moreover have "a / 2 < of_int \<lfloor>a\<rfloor>"
  proof -
    have "a < of_int \<lfloor>a\<rfloor> + 1" by linarith
    moreover from \<open>2 \<le> \<lfloor>a\<rfloor>\<close> have "(2::rat) \<le> of_int \<lfloor>a\<rfloor>" by linarith
    ultimately show ?thesis by linarith
  qed
  then have "\<lfloor>a / 2\<rfloor> < \<lfloor>a\<rfloor>" by (simp add: floor_less_iff)
  ultimately show "(a / 2, a) \<in> measure (\<lambda>a. nat \<lfloor>a\<rfloor>)" by simp
qed

function log2_down :: "rat \<Rightarrow> int" where
  "log2_down a = (if 0 < a \<and> a < 1 then log2_down (2 * a) - 1 else 0)"
  by pat_completeness auto
termination
proof (relation "measure (\<lambda>a. nat \<lfloor>1 / a\<rfloor>)")
  show "wf (measure (\<lambda>a::rat. nat \<lfloor>1 / a\<rfloor>))" by simp
next
  fix a :: rat
  assume a: "0 < a \<and> a < 1"
  define x where "x = 1 / a"
  from a have x: "1 < x" by (simp add: x_def)
  then have f: "1 \<le> \<lfloor>x\<rfloor>" by (simp add: le_floor_iff)
  have "x / 2 < of_int \<lfloor>x\<rfloor>"
  proof -
    have "x < of_int \<lfloor>x\<rfloor> + 1" by linarith
    moreover from f have "(1::rat) \<le> of_int \<lfloor>x\<rfloor>" by linarith
    ultimately show ?thesis by linarith
  qed
  then have "\<lfloor>x / 2\<rfloor> < \<lfloor>x\<rfloor>" by (simp add: floor_less_iff)
  moreover have "1 / (2 * a) = x / 2" by (simp add: x_def)
  ultimately have "\<lfloor>1 / (2 * a)\<rfloor> < \<lfloor>1 / a\<rfloor>" by (simp only: x_def)
  with f show "(2 * a, a) \<in> measure (\<lambda>a. nat \<lfloor>1 / a\<rfloor>)"
    unfolding x_def by simp
qed

declare log2_up.simps [simp del] log2_down.simps [simp del]

definition exponent_of :: "rat \<Rightarrow> int" where
  "exponent_of a = (if 1 \<le> a then log2_up a else log2_down a)"

text \<open>
  Rounding to the nearest integer, a tie to the even one, and the nearest double of a
  rational: 53 significant bits at the exponent of the value, which is not below
  -1022 (the subnormal numbers).
\<close>

definition round_even :: "rat \<Rightarrow> int" where
  "round_even r =
     (let f = \<lfloor>r\<rfloor>; d = r - of_int f
      in if d < 1 / 2 then f
         else if 1 / 2 < d then f + 1
         else if even f then f else f + 1)"

definition to_double :: "rat \<Rightarrow> number" where
  "to_double q =
     (if q = 0 then Finite 0
      else
        (let a = \<bar>q\<bar>;
             e = max (exponent_of a) (- 1022);
             ulp = pow 2 (e - 52);
             r = of_int (round_even (a / ulp)) * ulp
         in if pow 2 1024 \<le> r then Infinity (0 < q)
            else Finite (if 0 < q then r else - r)))"

text \<open>
  The value of a digit (of a radix up to 16), the value of a string of digits of a
  radix, and the parts of a decimal literal.
\<close>

definition digit_of :: "char \<Rightarrow> nat option" where
  "digit_of c =
     (let n = (of_char c :: nat)
      in if 48 \<le> n \<and> n \<le> 57 then Some (n - 48)
         else if 97 \<le> n \<and> n \<le> 102 then Some (n - 87)
         else if 65 \<le> n \<and> n \<le> 70 then Some (n - 55)
         else None)"

fun radix_value :: "nat \<Rightarrow> string \<Rightarrow> nat \<Rightarrow> nat option" where
  "radix_value b [] acc = Some acc"
| "radix_value b (c # cs) acc =
     (case digit_of c of
        None \<Rightarrow> None
      | Some d \<Rightarrow> if d < b then radix_value b cs (b * acc + d) else None)"

definition is_digit :: "char \<Rightarrow> bool" where
  "is_digit c = (48 \<le> (of_char c :: nat) \<and> (of_char c :: nat) \<le> 57)"

definition digits_int :: "string \<Rightarrow> int option" where
  "digits_int ds = (if ds = [] then None else map_option int (radix_value 10 ds 0))"

definition exponent_part :: "string \<Rightarrow> int option" where
  "exponent_part r =
     (case r of
        [] \<Rightarrow> Some 0
      | c # cs \<Rightarrow>
          if c = CHR ''e'' \<or> c = CHR ''E'' then
            (case cs of
               [] \<Rightarrow> None
             | d # ds \<Rightarrow>
                 if d = CHR ''+'' then digits_int ds
                 else if d = CHR ''-'' then map_option uminus (digits_int ds)
                 else digits_int cs)
          else None)"

definition unsigned_decimal :: "string \<Rightarrow> rat option" where
  "unsigned_decimal s =
     (let ip = takeWhile is_digit s; r = dropWhile is_digit s;
          point = (r \<noteq> [] \<and> hd r = CHR ''.'');
          fp = (if point then takeWhile is_digit (tl r) else []);
          r' = (if point then dropWhile is_digit (tl r) else r)
      in if ip = [] \<and> fp = [] then None
         else
           (case exponent_part r' of
              None \<Rightarrow> None
            | Some x \<Rightarrow>
                (case radix_value 10 (ip @ fp) 0 of
                   None \<Rightarrow> None
                 | Some n \<Rightarrow> Some (of_nat n * pow 10 (x - int (length fp))))))"

definition unsigned_literal :: "bool \<Rightarrow> string \<Rightarrow> number" where
  "unsigned_literal neg s =
     (if s = ''Infinity'' then Infinity (\<not> neg)
      else
        (case unsigned_decimal s of
           None \<Rightarrow> NaN
         | Some q \<Rightarrow> to_double (if neg then - q else q)))"

definition non_decimal :: "string \<Rightarrow> nat option" where
  "non_decimal s =
     (case s of
        c0 # c1 # ds \<Rightarrow>
          if c0 = CHR ''0'' \<and> ds \<noteq> [] then
            (if c1 = CHR ''x'' \<or> c1 = CHR ''X'' then radix_value 16 ds 0
             else if c1 = CHR ''o'' \<or> c1 = CHR ''O'' then radix_value 8 ds 0
             else if c1 = CHR ''b'' \<or> c1 = CHR ''B'' then radix_value 2 ds 0
             else None)
          else None
      | _ \<Rightarrow> None)"

definition js_Number :: "string \<Rightarrow> number" where
  "js_Number s =
     (let t = trim s
      in if t = [] then Finite 0
         else
           (case non_decimal t of
              Some n \<Rightarrow> to_double (of_nat n)
            | None \<Rightarrow>
                if hd t = CHR ''+'' then unsigned_literal False (tl t)
                else if hd t = CHR ''-'' then unsigned_literal True (tl t)
                else unsigned_literal False t))"

text \<open>
  A call of \<open>fetch\<close>: the address and the options. \<open>JSON.stringify({ number: n })\<close> is
  only reached with \<open>n\<close> an integer from 0 to 1000, which it writes in decimal.
\<close>

record request =
  url :: string
  http_method :: string
  credentials :: string
  headers :: "(string \<times> string) list"
  payload :: "string option"

definition stringify_number :: "number \<Rightarrow> string" where
  "stringify_number n =
     [CHR ''{'', CHR 0x22] @ ''number'' @ [CHR 0x22, CHR '':''] @
     (case n of Finite q \<Rightarrow> decimal (nat \<lfloor>q\<rfloor>) | _ \<Rightarrow> ''null'') @ [CHR ''}'']"

definition start_request :: request where
  "start_request =
     \<lparr>url = ''/api'', http_method = ''GET'', credentials = ''include'', headers = [],
      payload = None\<rparr>"

definition reset_request :: request where
  "reset_request =
     \<lparr>url = ''/api/reset'', http_method = ''GET'', credentials = ''include'', headers = [],
      payload = None\<rparr>"

definition guess_request :: "number \<Rightarrow> request" where
  "guess_request n =
     \<lparr>url = ''/api'', http_method = ''POST'', credentials = ''include'',
      headers = [(''Content-Type'', ''application/json'')],
      payload = Some (stringify_number n)\<rparr>"

text \<open>The transport: \<open>fetch\<close> rejects with a thrown value or resolves with a response.\<close>

type_synonym fetch_result = "exn + response"

type_synonym transport = "request \<Rightarrow> fetch_result"

section \<open>The intents: \<open>startGame\<close>, \<open>resetGame\<close>, \<open>submitGuess\<close>\<close>

text \<open>
  Each handler is split at its only call of the transport. \<open>f_begin\<close> is the code that
  runs before \<open>fetch\<close> is awaited: it gives the state that is shown while the request
  is under way, and the request (none when the handler returned before). \<open>f_try\<close> is
  the rest of the \<open>try\<close> block, run on what the transport answered: it gives the state
  with the updates made so far, and the value thrown, if any. \<open>f_resume\<close> adds the
  \<open>catch\<close> and \<open>finally\<close> clauses. The handler itself returns the final state and the
  requests it issued.
\<close>

definition throw_err :: "parsed_body \<Rightarrow> exn" where
  "throw_err b = ErrorObj (case err b of None \<Rightarrow> [] | Some m \<Rightarrow> m)"

definition startGame_begin :: "state \<Rightarrow> state \<times> request" where
  "startGame_begin s = (s\<lparr>error := [], msg := [], loading := True\<rparr>, start_request)"

definition startGame_try :: "state \<Rightarrow> fetch_result \<Rightarrow> state \<times> exn option" where
  "startGame_try s r =
     (case r of
        Inl e \<Rightarrow> (s, Some e)
      | Inr res \<Rightarrow>
          (case readBody res of
             Inl e \<Rightarrow> (s, Some e)
           | Inr b \<Rightarrow>
               if \<not> ok b then (s, Some (throw_err b))
               else (s\<lparr>started := True, finished := False, tries := 0, value_v := []\<rparr>,
                     None)))"

definition startGame_resume :: "state \<Rightarrow> fetch_result \<Rightarrow> state" where
  "startGame_resume s r =
     (case startGame_try s r of
        (s', None) \<Rightarrow> s'\<lparr>loading := False\<rparr>
      | (s', Some e) \<Rightarrow> s'\<lparr>error := message_or e ''Failed to start'', loading := False\<rparr>)"

definition startGame :: "transport \<Rightarrow> state \<Rightarrow> state \<times> request list" where
  "startGame fetch s =
     (case startGame_begin s of (s1, rq) \<Rightarrow> (startGame_resume s1 (fetch rq), [rq]))"

definition resetGame_begin :: "state \<Rightarrow> state \<times> request" where
  "resetGame_begin s = (s\<lparr>error := []\<rparr>, reset_request)"

definition resetGame_try :: "state \<Rightarrow> fetch_result \<Rightarrow> state \<times> exn option" where
  "resetGame_try s r =
     (case r of
        Inl e \<Rightarrow> (s, Some e)
      | Inr res \<Rightarrow>
          (case readBody res of
             Inl e \<Rightarrow> (s, Some e)
           | Inr b \<Rightarrow>
               if \<not> ok b then (s, Some (throw_err b))
               else (s\<lparr>msg := ''Game reset. Counter set to 0.'', tries := 0,
                       value_v := [], finished := False\<rparr>,
                     None)))"

definition resetGame_resume :: "state \<Rightarrow> fetch_result \<Rightarrow> state" where
  "resetGame_resume s r =
     (case resetGame_try s r of
        (s', None) \<Rightarrow> s'
      | (s', Some e) \<Rightarrow> s'\<lparr>error := message_or e ''Failed to reset''\<rparr>)"

definition resetGame :: "transport \<Rightarrow> state \<Rightarrow> state \<times> request list" where
  "resetGame fetch s =
     (case resetGame_begin s of (s1, rq) \<Rightarrow> (resetGame_resume s1 (fetch rq), [rq]))"

definition submitGuess_begin :: "(string \<Rightarrow> number) \<Rightarrow> state \<Rightarrow> state \<times> request option" where
  "submitGuess_begin Number s =
     (let s1 = s\<lparr>error := [], msg := []\<rparr> in
      if isBlank (value_v s) then (s1\<lparr>error := ''Please enter a number''\<rparr>, None)
      else
        (let n = Number (value_v s) in
         if \<not> isInteger n \<or> less_num n (Finite 0) \<or> less_num (Finite 1000) n
         then (s1\<lparr>error := ''Enter an integer between 0 and 1000''\<rparr>, None)
         else (s1\<lparr>loading := True\<rparr>, Some (guess_request n))))"

definition submitGuess_try :: "state \<Rightarrow> fetch_result \<Rightarrow> state \<times> exn option" where
  "submitGuess_try s r =
     (case r of
        Inl e \<Rightarrow> (s, Some e)
      | Inr res \<Rightarrow>
          (case readBody res of
             Inl e \<Rightarrow> (s, Some e)
           | Inr b \<Rightarrow>
               if \<not> ok b then (s, Some (throw_err b))
               else
                 (let fb = toFeedback b;
                      newTries = tries s + 1;
                      s2 = s\<lparr>finished := (fb = Some CORRECT), tries := newTries\<rparr>
                  in case fb of
                       Some f \<Rightarrow>
                         (s2\<lparr>msg := labelFor f @ ''. Total guess '' @ decimal newTries,
                             value_v := []\<rparr>,
                          None)
                     | None \<Rightarrow>
                         (let raw =
                                coalesce (map_option JString (text_v b))
                                  (coalesce
                                     (coalesce (opt_prop (data b) ''message'')
                                               (opt_prop (data b) ''result''))
                                     (Some (JString ''Submitted.'')))
                          in case ToString_opt raw of
                               Inl e \<Rightarrow> (s2, Some e)
                             | Inr t \<Rightarrow>
                                 (s2\<lparr>msg := t @ ''. Total guess '' @ decimal newTries,
                                     value_v := []\<rparr>,
                                  None)))))"

definition submitGuess_resume :: "state \<Rightarrow> fetch_result \<Rightarrow> state" where
  "submitGuess_resume s r =
     (case submitGuess_try s r of
        (s', None) \<Rightarrow> s'\<lparr>loading := False\<rparr>
      | (s', Some e) \<Rightarrow> s'\<lparr>error := message_or e ''Guess failed'', loading := False\<rparr>)"

definition submitGuess ::
    "(string \<Rightarrow> number) \<Rightarrow> transport \<Rightarrow> state \<Rightarrow> state \<times> request list" where
  "submitGuess Number fetch s =
     (case submitGuess_begin Number s of
        (s1, None) \<Rightarrow> (s1, [])
      | (s1, Some rq) \<Rightarrow> (submitGuess_resume s1 (fetch rq), [rq]))"

text \<open>
  Typing into the input (\<open>onChange\<close>) sets \<open>value\<close>. An event is an intent of the
  user together with what the transport answers to it; a run performs a list of
  events from a state.
\<close>

definition setValue :: "string \<Rightarrow> state \<Rightarrow> state" where
  "setValue v s = s\<lparr>value_v := v\<rparr>"

datatype intent = Start | Reset | Guess | Type string

fun perform :: "(string \<Rightarrow> number) \<Rightarrow> intent \<times> transport \<Rightarrow> state \<Rightarrow> state" where
  "perform Number (Start, fetch) s = fst (startGame fetch s)"
| "perform Number (Reset, fetch) s = fst (resetGame fetch s)"
| "perform Number (Guess, fetch) s = fst (submitGuess Number fetch s)"
| "perform Number (Type v, fetch) s = setValue v s"

fun run :: "(string \<Rightarrow> number) \<Rightarrow> (intent \<times> transport) list \<Rightarrow> state \<Rightarrow> state" where
  "run Number [] s = s"
| "run Number (ev # evs) s = run Number evs (perform Number ev s)"

section \<open>Notions used to state the properties\<close>

text \<open>\<open>typeof v === 'string'\<close>\<close>

definition is_string :: "json option \<Rightarrow> bool" where
  "is_string v = (case v of Some (JString s) \<Rightarrow> True | _ \<Rightarrow> False)"

text \<open>
  What a handler read from the transport's answer: the object \<open>readBody\<close> resolved
  with when the response was a success, \<open>None\<close> when \<open>fetch\<close> rejected, \<open>readBody\<close>
  threw or the response was a failure.
\<close>

definition read_ok :: "fetch_result \<Rightarrow> parsed_body option" where
  "read_ok r =
     (case r of
        Inl e \<Rightarrow> None
      | Inr res \<Rightarrow>
          (case readBody res of
             Inl e \<Rightarrow> None
           | Inr b \<Rightarrow> if ok b then Some b else None))"

text \<open>
  The guess in \<open>value\<close> is valid: not blank, and its number is an integer from 0 to
  1000.
\<close>

definition valid_guess :: "(string \<Rightarrow> number) \<Rightarrow> state \<Rightarrow> bool" where
  "valid_guess Number s =
     (\<not> isBlank (value_v s) \<and>
      (\<exists>k::nat. k \<le> 1000 \<and> Number (value_v s) = Finite (of_nat k)))"

text \<open>\<open>undefined\<close> or \<open>null\<close>: what \<open>??\<close> passes over.\<close>

definition nullish :: "json option \<Rightarrow> bool" where
  "nullish v = (v = None \<or> v = Some JNull)"

text \<open>
  The first of the properties \<open>error\<close>, \<open>message\<close>, \<open>detail\<close> of a parsed body that
  is present and not \<open>null\<close>.
\<close>

definition first_present :: "json \<Rightarrow> json option" where
  "first_present j =
     (let e = opt_prop (Some j) ''error'';
          m = opt_prop (Some j) ''message'';
          d = opt_prop (Some j) ''detail''
      in if \<not> nullish e then e else if \<not> nullish m then m else d)"

text \<open>
  The one value of a parsed body that is tested for a feedback: \<open>feedback\<close> when it
  is present and not \<open>null\<close>, otherwise \<open>message\<close> when it is a string, otherwise
  \<open>result\<close> when it is a string.
\<close>

definition candidate :: "json \<Rightarrow> json option" where
  "candidate j =
     (let f = opt_prop (Some j) ''feedback'';
          m = opt_prop (Some j) ''message'';
          r = opt_prop (Some j) ''result''
      in if \<not> nullish f then f
         else if is_string m then m
         else if is_string r then r
         else None)"



text \<open>
  The message a handler's \<open>catch\<close> clause shows for an answer that was not read as
  a success: the message of what \<open>fetch\<close> or \<open>readBody\<close> threw, or the error text
  \<open>readBody\<close> resolved with.
\<close>

definition failure_message :: "fetch_result \<Rightarrow> string \<Rightarrow> string" where
  "failure_message r fallback =
     (case r of
        Inl e \<Rightarrow> message_or e fallback
      | Inr res \<Rightarrow>
          (case readBody res of
             Inl e \<Rightarrow> message_or e fallback
           | Inr b \<Rightarrow> (case err b of None \<Rightarrow> [] | Some m \<Rightarrow> m)))"

text \<open>
  What a guess read: the body of a success response to a valid guess, \<open>None\<close> when
  the guess was not valid or its answer was not read as a success.
\<close>

definition guess_read :: "(string \<Rightarrow> number) \<Rightarrow> transport \<Rightarrow> state \<Rightarrow> parsed_body option" where
  "guess_read Number fetch s =
     (if valid_guess Number s then read_ok (fetch (guess_request (Number (value_v s))))
      else None)"

section \<open>Responses and inputs of the examples\<close>

text \<open>
  The JSON text of a value whose strings hold no character that needs an escape; the
  parser gives the value back on it.
\<close>

definition quoted :: "string \<Rightarrow> string" where
  "quoted t = CHR 0x22 # t @ [CHR 0x22]"

fun commas :: "string list \<Rightarrow> string" where
  "commas [] = []"
| "commas [t] = t"
| "commas (t # ts) = t @ '','' @ commas ts"

fun json_text :: "json \<Rightarrow> string" where
  "json_text JNull = ''null''"
| "json_text (JBool b) = (if b then ''true'' else ''false'')"
| "json_text (JNumber t) = t"
| "json_text (JString t) = quoted t"
| "json_text (JArray xs) = ''['' @ commas (map json_text xs) @ '']''"
| "json_text (JObject kvs) =
     ''{'' @ commas (map (\<lambda>kv. quoted (fst kv) @ '':'' @ json_text (snd kv)) kvs) @ ''}''"

text \<open>
  A response with a JSON body, one that names JSON and holds a text that is not
  JSON, and one with a plain text.
\<close>

definition json_response :: "nat \<Rightarrow> json \<Rightarrow> response" where
  "json_response st j =
     \<lparr>status = st, content_type = Some ''application/json'', body = Some (json_text j),
      parsed = Some j\<rparr>"

definition broken_json_response :: "nat \<Rightarrow> string \<Rightarrow> response" where
  "broken_json_response st t =
     \<lparr>status = st, content_type = Some ''application/json'', body = Some t,
      parsed = None\<rparr>"

definition text_response :: "nat \<Rightarrow> string \<Rightarrow> response" where
  "text_response st t =
     \<lparr>status = st, content_type = Some ''text/plain'', body = Some t, parsed = None\<rparr>"



definition error_42_body :: json where
  "error_42_body = JObject [(''error'', JNumber ''42'')]"

definition session_expired_body :: json where
  "session_expired_body = JObject [(''error'', JString ''session expired'')]"

text \<open>
  A transport that answers every request with the same response, the body of a
  response that names a feedback, and a state of a started game.
\<close>

definition answer :: "response \<Rightarrow> transport" where
  "answer res = (\<lambda>rq. Inr res)"

definition feedback_body :: "string \<Rightarrow> json" where
  "feedback_body lit = JObject [(''feedback'', JString lit)]"

definition guessing_state :: "string \<Rightarrow> nat \<Rightarrow> bool \<Rightarrow> state" where
  "guessing_state v n fin =
     \<lparr>started = True, value_v = v, error = [], msg = [], tries = n, loading = False,
      finished = fin\<rparr>"

text \<open>
  Two runs from the initial state: a game is started, 500 is typed and guessed, and
  the service answers \<open>CORRECT\<close> (\<open>won_events\<close>) or \<open>TOO_LOW\<close> (\<open>low_events\<close>).
\<close>

definition ok_transport :: transport where
  "ok_transport = answer (text_response 200 ''ok'')"

definition won_events :: "(intent \<times> transport) list" where
  "won_events =
     [(Start, ok_transport), (Type ''500'', ok_transport),
      (Guess, answer (json_response 200 (feedback_body ''CORRECT'')))]"

definition low_events :: "(intent \<times> transport) list" where
  "low_events =
     [(Start, ok_transport), (Type ''500'', ok_transport),
      (Guess, answer (json_response 200 (feedback_body ''TOO_LOW'')))]"

text \<open>
  A conversion for the examples: the value of a string of decimal digits, 0 for the
  empty string and \<open>NaN\<close> for every other string. It agrees with \<open>Number\<close> on the
  strings the examples convert (\<open>500\<close>, \<open>2000\<close> and \<open>abc\<close>).
\<close>

fun digits_value :: "string \<Rightarrow> nat \<Rightarrow> nat option" where
  "digits_value [] acc = Some acc"
| "digits_value (c # cs) acc =
     (if 48 \<le> (of_char c :: nat) \<and> (of_char c :: nat) \<le> 57
      then digits_value cs (10 * acc + (of_char c - 48))
      else None)"

definition digits_Number :: "string \<Rightarrow> number" where
  "digits_Number v =
     (case digits_value v 0 of Some n \<Rightarrow> Finite (of_nat n) | None \<Rightarrow> NaN)"

section \<open>The cases of \<open>readBody\<close>\<close>

lemma json_ct: "includes_str ''application/json'' ''application/json''"
  by code_simp

lemma readBody_ok_json:
  assumes "res_ok res" "includes_str (ct_of res) ''application/json''"
    "body res = Some t" "parsed res = Some j"
  shows "readBody res = Inr \<lparr>ok = True, data = Some j, text_v = None, err = None\<rparr>"
  using assms by (simp add: readBody_def res_json_def)

lemma readBody_ok_json_unparsed:
  assumes "res_ok res" "includes_str (ct_of res) ''application/json''"
    "body res = None \<or> parsed res = None"
  shows "readBody res = Inr \<lparr>ok = True, data = None, text_v = None, err = None\<rparr>"
  using assms by (auto simp add: readBody_def res_json_def split: option.splits)

lemma readBody_ok_text:
  assumes "res_ok res" "\<not> includes_str (ct_of res) ''application/json''"
  shows "readBody res =
    Inr \<lparr>ok = True, data = None,
         text_v = Some (trim (case body res of None \<Rightarrow> [] | Some t \<Rightarrow> t)), err = None\<rparr>"
  using assms by (simp add: readBody_def res_text_def split: option.splits)

lemma readBody_fail_json:
  assumes "\<not> res_ok res" "includes_str (ct_of res) ''application/json''"
    "body res = Some t" "parsed res = Some j" "j \<noteq> JNull"
  shows "readBody res =
    Inr \<lparr>ok = False, data = None, text_v = None,
         err = Some (case coalesce (coalesce (opt_prop (Some j) ''error'')
                                             (opt_prop (Some j) ''message''))
                                   (opt_prop (Some j) ''detail'') of
                       Some (JString m) \<Rightarrow> m
                     | _ \<Rightarrow> ''HTTP '' @ decimal (status res))\<rparr>"
  using assms
  by (cases j) (simp_all add: readBody_def failure_try_def res_json_def failure_text_def)

lemma readBody_fail_text:
  assumes "\<not> res_ok res" "\<not> includes_str (ct_of res) ''application/json''"
  shows "readBody res =
    Inr \<lparr>ok = False, data = None, text_v = None,
         err = Some (let t = trim (case body res of None \<Rightarrow> [] | Some t \<Rightarrow> t)
                     in if t = [] then ''HTTP '' @ decimal (status res) else t)\<rparr>"
  using assms
  by (simp add: readBody_def failure_try_def res_text_def Let_def split: option.splits)

lemma trim_empty: "trim [] = []"
  by code_simp

lemma readBody_fail_json_null_body:
  assumes "\<not> res_ok res" "includes_str (ct_of res) ''application/json''" "body res = None"
  shows "readBody res =
    Inr \<lparr>ok = False, data = None, text_v = None,
         err = Some (''HTTP '' @ decimal (status res))\<rparr>"
  using assms
  by (simp add: readBody_def failure_try_def res_json_def res_text_def trim_empty)

lemma readBody_fail_json_throws:
  assumes "\<not> res_ok res" "includes_str (ct_of res) ''application/json''"
    "body res = Some t" "parsed res = None \<or> parsed res = Some JNull"
  shows "readBody res = Inl (ErrorObj body_used_message)"
  using assms
  by (auto simp add: readBody_def failure_try_def res_json_def res_text_def failure_text_def)

text \<open>
  \<open>readBody\<close> throws exactly on a failure response that names JSON as its content
  type and whose body is not JSON, or is the JSON \<open>null\<close>: the \<open>try\<close> block has read
  the body, and the second reading, after the empty \<open>catch\<close>, rejects.
\<close>

lemma readBody_throws_iff:
  "(\<exists>e. readBody res = Inl e) \<longleftrightarrow>
     (\<not> res_ok res \<and> includes_str (ct_of res) ''application/json'' \<and> body res \<noteq> None \<and>
      (parsed res = None \<or> parsed res = Some JNull))"
proof (cases "res_ok res")
  case True
  then show ?thesis
    by (cases "includes_str (ct_of res) ''application/json''")
       (auto simp add: readBody_def res_json_def res_text_def split: option.splits sum.splits)
next
  case nok: False
  show ?thesis
  proof (cases "includes_str (ct_of res) ''application/json''")
    case False
    with nok show ?thesis by (simp add: readBody_fail_text)
  next
    case js: True
    show ?thesis
    proof (cases "body res")
      case None
      with nok js show ?thesis by (simp add: readBody_fail_json_null_body)
    next
      case (Some t)
      show ?thesis
      proof (cases "parsed res = None \<or> parsed res = Some JNull")
        case True
        with nok js Some show ?thesis by (simp add: readBody_fail_json_throws)
      next
        case False
        then obtain j where "parsed res = Some j" "j \<noteq> JNull" by auto
        with nok js Some show ?thesis by (simp add: readBody_fail_json)
      qed
    qed
  qed
qed

section \<open>The choice of the candidate\<close>


lemma coalesce_nullish: "coalesce a b = (if nullish a then b else a)"
  by (auto simp add: coalesce_def nullish_def split: option.splits json.splits)

lemma if_string_is_string: "if_string v = (if is_string v then v else None)"
  by (auto simp add: if_string_def is_string_def split: option.splits json.splits)

lemma is_string_not_nullish: "is_string v \<Longrightarrow> \<not> nullish v"
  by (auto simp add: is_string_def nullish_def split: option.splits json.splits)

lemma as_feedback_None: "as_feedback None = None"
  by (simp add: as_feedback_def)

lemma toFeedback_data:
  "toFeedback \<lparr>ok = True, data = Some j, text_v = None, err = None\<rparr> =
     as_feedback (candidate j)"
proof -
  have n: "nullish None" by (simp add: nullish_def)
  show ?thesis
    by (simp add: toFeedback_def candidate_def Let_def coalesce_nullish
        if_string_is_string is_string_not_nullish n)
qed

lemma first_present_coalesce:
  "coalesce (coalesce (opt_prop (Some j) ''error'') (opt_prop (Some j) ''message''))
            (opt_prop (Some j) ''detail'') = first_present j"
  by (simp add: first_present_def coalesce_nullish Let_def)

section \<open>The cases of the handlers\<close>

lemma in_range_iff:
  "(isInteger n \<and> \<not> less_num n (Finite 0) \<and> \<not> less_num (Finite 1000) n) \<longleftrightarrow>
   (\<exists>k::nat. k \<le> 1000 \<and> n = Finite (of_nat k))"
proof (cases n)
  case (Finite q)
  show ?thesis
  proof
    assume a: "isInteger n \<and> \<not> less_num n (Finite 0) \<and> \<not> less_num (Finite 1000) n"
    with Finite have q: "of_int \<lfloor>q\<rfloor> = q" "0 \<le> q" "q \<le> 1000"
      by (simp_all add: isInteger_def)
    then have f: "0 \<le> \<lfloor>q\<rfloor>" "\<lfloor>q\<rfloor> \<le> 1000" by linarith+
    then have "nat \<lfloor>q\<rfloor> \<le> 1000" by linarith
    moreover have "rat_of_nat (nat \<lfloor>q\<rfloor>) = rat_of_int \<lfloor>q\<rfloor>"
      using f(1) by (simp only: of_nat_nat)
    with q(1) have "q = of_nat (nat \<lfloor>q\<rfloor>)" by (simp only:)
    ultimately show "\<exists>k::nat. k \<le> 1000 \<and> n = Finite (of_nat k)"
      using Finite by blast
  next
    assume "\<exists>k::nat. k \<le> 1000 \<and> n = Finite (of_nat k)"
    then obtain k :: nat where "k \<le> 1000" "n = Finite (of_nat k)" by blast
    then show "isInteger n \<and> \<not> less_num n (Finite 0) \<and> \<not> less_num (Finite 1000) n"
      by (simp add: isInteger_def)
  qed
qed (simp_all add: isInteger_def)

lemma submitGuess_begin_valid:
  assumes "valid_guess Number s"
  shows "submitGuess_begin Number s =
     (s\<lparr>error := [], msg := [], loading := True\<rparr>,
      Some (guess_request (Number (value_v s))))"
proof -
  from assms have "\<not> isBlank (value_v s)"
    and "\<exists>k::nat. k \<le> 1000 \<and> Number (value_v s) = Finite (of_nat k)"
    by (simp_all add: valid_guess_def)
  then show ?thesis
    using in_range_iff [of "Number (value_v s)"]
    by (simp add: submitGuess_begin_def Let_def)
qed

lemma submitGuess_begin_invalid:
  assumes "\<not> valid_guess Number s"
  shows "submitGuess_begin Number s =
     (s\<lparr>error := (if isBlank (value_v s) then ''Please enter a number''
                    else ''Enter an integer between 0 and 1000''),
        msg := []\<rparr>, None)"
proof (cases "isBlank (value_v s)")
  case True
  then show ?thesis by (simp add: submitGuess_begin_def Let_def)
next
  case False
  with assms have "\<not> (\<exists>k::nat. k \<le> 1000 \<and> Number (value_v s) = Finite (of_nat k))"
    by (simp add: valid_guess_def)
  with False show ?thesis
    using in_range_iff [of "Number (value_v s)"]
    by (auto simp add: submitGuess_begin_def Let_def)
qed

lemma read_ok_SomeD:
  "read_ok r = Some b \<Longrightarrow> \<exists>res. r = Inr res \<and> readBody res = Inr b \<and> ok b"
  by (auto simp add: read_ok_def split: sum.splits if_splits)

lemma submitGuess_try_fail:
  assumes "read_ok r = None"
  shows "submitGuess_try s r =
     (s, Some (case r of Inl e \<Rightarrow> e
                | Inr res \<Rightarrow> (case readBody res of Inl e \<Rightarrow> e | Inr b \<Rightarrow> throw_err b)))"
  using assms
  by (auto simp add: submitGuess_try_def read_ok_def split: sum.splits if_splits)

lemma submitGuess_resume_fail:
  assumes "read_ok r = None"
  shows "submitGuess_resume s r =
     s\<lparr>error := failure_message r ''Guess failed'', loading := False\<rparr>"
  using assms
  by (auto simp add: submitGuess_resume_def submitGuess_try_fail failure_message_def
      throw_err_def message_or_def split: sum.splits)

lemma submitGuess_resume_feedback:
  assumes "read_ok r = Some b" and "toFeedback b = Some fb"
  shows "submitGuess_resume s r =
     s\<lparr>finished := (fb = CORRECT), tries := tries s + 1,
       msg := labelFor fb @ ''. Total guess '' @ decimal (tries s + 1),
       value_v := [], loading := False\<rparr>"
proof -
  from assms(1) obtain res where "r = Inr res" "readBody res = Inr b" "ok b"
    using read_ok_SomeD by blast
  with assms(2) show ?thesis
    by (simp add: submitGuess_resume_def submitGuess_try_def Let_def)
qed

lemma submitGuess_resume_ok:
  assumes "read_ok r = Some b"
  shows "finished (submitGuess_resume s r) = (toFeedback b = Some CORRECT) \<and>
         tries (submitGuess_resume s r) = tries s + 1 \<and>
         \<not> loading (submitGuess_resume s r)"
proof -
  from assms(1) obtain res where "r = Inr res" "readBody res = Inr b" "ok b"
    using read_ok_SomeD by blast
  then show ?thesis
    by (simp add: submitGuess_resume_def submitGuess_try_def Let_def
        split: option.splits sum.splits)
qed

lemma startGame_resume_fail:
  assumes "read_ok r = None"
  shows "startGame_resume s r =
     s\<lparr>error := failure_message r ''Failed to start'', loading := False\<rparr>"
  using assms
  by (auto simp add: startGame_resume_def startGame_try_def read_ok_def failure_message_def
      throw_err_def message_or_def split: sum.splits if_splits)

lemma startGame_resume_ok:
  assumes "read_ok r = Some b"
  shows "startGame_resume s r =
     s\<lparr>started := True, finished := False, tries := 0, value_v := [], loading := False\<rparr>"
proof -
  from assms(1) obtain res where "r = Inr res" "readBody res = Inr b" "ok b"
    using read_ok_SomeD by blast
  then show ?thesis by (simp add: startGame_resume_def startGame_try_def)
qed

lemma resetGame_resume_fail:
  assumes "read_ok r = None"
  shows "resetGame_resume s r = s\<lparr>error := failure_message r ''Failed to reset''\<rparr>"
  using assms
  by (auto simp add: resetGame_resume_def resetGame_try_def read_ok_def failure_message_def
      throw_err_def message_or_def split: sum.splits if_splits)

lemma resetGame_resume_ok:
  assumes "read_ok r = Some b"
  shows "resetGame_resume s r =
     s\<lparr>msg := ''Game reset. Counter set to 0.'', tries := 0, value_v := [],
       finished := False\<rparr>"
proof -
  from assms(1) obtain res where "r = Inr res" "readBody res = Inr b" "ok b"
    using read_ok_SomeD by blast
  then show ?thesis by (simp add: resetGame_resume_def resetGame_try_def)
qed

lemma submitGuess_valid:
  assumes "valid_guess Number s"
  shows "submitGuess Number fetch s =
     (submitGuess_resume (s\<lparr>error := [], msg := [], loading := True\<rparr>)
        (fetch (guess_request (Number (value_v s)))),
      [guess_request (Number (value_v s))])"
  using assms by (simp add: submitGuess_def submitGuess_begin_valid)

lemma submitGuess_invalid:
  assumes "\<not> valid_guess Number s"
  shows "submitGuess Number fetch s =
     (s\<lparr>error := (if isBlank (value_v s) then ''Please enter a number''
                    else ''Enter an integer between 0 and 1000''),
        msg := []\<rparr>, [])"
  using assms by (simp add: submitGuess_def submitGuess_begin_invalid)

lemma digits_Number_500: "digits_Number ''500'' = Finite (of_nat 500)"
  by (simp add: digits_Number_def)

lemma not_blank_500: "\<not> isBlank ''500''"
  by code_simp

lemma valid_500: "valid_guess digits_Number (guessing_state ''500'' n fin)"
  unfolding valid_guess_def guessing_state_def
  using digits_Number_500 not_blank_500 by (intro conjI exI [of _ 500]) simp_all

lemma read_ok_feedback:
  "read_ok (Inr (json_response 200 (feedback_body lit))) =
     Some \<lparr>ok = True, data = Some (feedback_body lit), text_v = None, err = None\<rparr>"
  by (simp add: read_ok_def readBody_ok_json [where t = "json_text (feedback_body lit)"] json_response_def res_ok_def
      ct_of_def json_ct)

lemma toFeedback_feedback:
  "toFeedback \<lparr>ok = True, data = Some (feedback_body lit), text_v = None, err = None\<rparr> =
     as_feedback (Some (JString lit))"
  by (simp add: toFeedback_data candidate_def feedback_body_def opt_prop_def nullish_def)

lemma readBody_session_expired:
  "readBody (json_response 500 session_expired_body) =
     Inr \<lparr>ok = False, data = None, text_v = None, err = Some ''session expired''\<rparr>"
  by code_simp

lemma run_won:
  "run digits_Number won_events init_state =
     \<lparr>started = True, value_v = [], error = [], msg = ''Correct. Total guess 1'', tries = 1,
      loading = False, finished = True\<rparr>"
  by code_simp

lemma run_low:
  "run digits_Number low_events init_state =
     \<lparr>started = True, value_v = [], error = [], msg = ''Too Low. Total guess 1'', tries = 1,
      loading = False, finished = False\<rparr>"
  by code_simp

lemma digits_Number_abc: "digits_Number ''abc'' = NaN"
  by (simp add: digits_Number_def)

lemma digits_Number_2000: "digits_Number ''2000'' = Finite (of_nat 2000)"
  by (simp add: digits_Number_def)

lemma blank_spaces: "isBlank ''   ''"
  by code_simp

lemma decimal_500: "decimal 500 = ''500''"
  by code_simp

lemma stringify_of_nat:
  "stringify_number (Finite (of_nat k)) =
     [CHR ''{'', CHR 0x22] @ ''number'' @ [CHR 0x22, CHR '':''] @ decimal k @ [CHR ''}'']"
  by (simp add: stringify_number_def)

lemma not_blank_abc: "\<not> isBlank ''abc''"
  by code_simp

lemma submitGuess_resume_not_loading: "\<not> loading (submitGuess_resume s r)"
proof (cases "read_ok r")
  case None
  then show ?thesis by (simp add: submitGuess_resume_fail)
next
  case (Some b)
  then show ?thesis by (simp add: submitGuess_resume_ok)
qed

lemma startGame_resume_not_loading: "\<not> loading (startGame_resume s r)"
proof (cases "read_ok r")
  case None
  then show ?thesis by (simp add: startGame_resume_fail)
next
  case (Some b)
  then show ?thesis by (simp add: startGame_resume_ok)
qed

lemma valid_setValue_500: "valid_guess digits_Number (setValue ''500'' s)"
  unfolding valid_guess_def setValue_def
  using digits_Number_500 not_blank_500 by (intro conjI exI [of _ 500]) simp_all

lemma read_ok_text:
  "read_ok (Inr (text_response 200 t)) =
     Some \<lparr>ok = True, data = None, text_v = Some (trim t), err = None\<rparr>"
proof -
  have "\<not> includes_str ''text/plain'' ''application/json''" by code_simp
  then show ?thesis
    by (simp add: read_ok_def readBody_ok_text text_response_def res_ok_def ct_of_def)
qed

lemma toFeedback_text:
  "toFeedback \<lparr>ok = True, data = None, text_v = Some t, err = None\<rparr> =
     as_feedback (Some (JString t))"
  by (simp add: toFeedback_def opt_prop_def if_string_def coalesce_def)

lemma run_snoc: "run Number (evs @ [ev]) s = perform Number ev (run Number evs s)"
  by (induction evs arbitrary: s) simp_all

lemma startGame_finished:
  "finished (fst (startGame fetch s)) =
     (if read_ok (fetch start_request) = None then finished s else False) \<and>
   tries (fst (startGame fetch s)) =
     (if read_ok (fetch start_request) = None then tries s else 0)"
  by (cases "read_ok (fetch start_request)")
     (simp_all add: startGame_def startGame_begin_def startGame_resume_fail
       startGame_resume_ok)

lemma resetGame_finished:
  "finished (fst (resetGame fetch s)) =
     (if read_ok (fetch reset_request) = None then finished s else False) \<and>
   tries (fst (resetGame fetch s)) =
     (if read_ok (fetch reset_request) = None then tries s else 0)"
  by (cases "read_ok (fetch reset_request)")
     (simp_all add: resetGame_def resetGame_begin_def resetGame_resume_fail
       resetGame_resume_ok)

lemma submitGuess_finished:
  "finished (fst (submitGuess Number fetch s)) =
     (case guess_read Number fetch s of
        None \<Rightarrow> finished s
      | Some b \<Rightarrow> toFeedback b = Some CORRECT) \<and>
   tries (fst (submitGuess Number fetch s)) =
     (case guess_read Number fetch s of None \<Rightarrow> tries s | Some b \<Rightarrow> tries s + 1)"
proof (cases "valid_guess Number s")
  case False
  then show ?thesis by (simp add: guess_read_def submitGuess_invalid)
next
  case True
  then show ?thesis
    by (cases "read_ok (fetch (guess_request (Number (value_v s))))")
       (simp_all add: guess_read_def submitGuess_valid submitGuess_resume_fail
         submitGuess_resume_ok)
qed

lemma perform_finished:
  assumes "finished (perform Number ev s)"
  shows "finished s \<or>
         (\<exists>fetch b. ev = (Guess, fetch) \<and> guess_read Number fetch s = Some b \<and>
                    toFeedback b = Some CORRECT)"
proof (cases ev)
  case (Pair i fetch)
  show ?thesis
  proof (cases i)
    case Start
    with Pair assms show ?thesis by (simp add: startGame_finished split: if_splits)
  next
    case Reset
    with Pair assms show ?thesis by (simp add: resetGame_finished split: if_splits)
  next
    case Guess
    with Pair assms show ?thesis
      by (cases "guess_read Number fetch s") (simp_all add: submitGuess_finished)
  next
    case (Type v)
    with Pair assms show ?thesis by (simp add: setValue_def)
  qed
qed

lemma finished_run:
  "finished (run Number evs init_state) \<Longrightarrow>
     \<exists>pre fetch post b. evs = pre @ (Guess, fetch) # post \<and>
       guess_read Number fetch (run Number pre init_state) = Some b \<and>
       toFeedback b = Some CORRECT"
proof (induction evs rule: rev_induct)
  case Nil
  then show ?case by (simp add: init_state_def)
next
  case (snoc ev evs)
  from snoc.prems have "finished (perform Number ev (run Number evs init_state))"
    by (simp add: run_snoc)
  then consider (old) "finished (run Number evs init_state)"
    | (new) fetch b where "ev = (Guess, fetch)"
        "guess_read Number fetch (run Number evs init_state) = Some b"
        "toFeedback b = Some CORRECT"
    using perform_finished by blast
  then show ?case
  proof cases
    case old
    with snoc.IH obtain pre fetch post b where
      "evs = pre @ (Guess, fetch) # post"
      "guess_read Number fetch (run Number pre init_state) = Some b"
      "toFeedback b = Some CORRECT"
      by blast
    then have "evs @ [ev] = pre @ (Guess, fetch) # (post @ [ev])" by simp
    with \<open>guess_read Number fetch (run Number pre init_state) = Some b\<close>
      \<open>toFeedback b = Some CORRECT\<close>
    show ?thesis by blast
  next
    case new
    then have "evs @ [ev] = evs @ (Guess, fetch) # []" by simp
    with new show ?thesis by blast
  qed
qed

text \<open>
  What each handler does to the message and the error before its request:
  \<open>startGame\<close> and \<open>submitGuess\<close> empty both, \<open>resetGame\<close> empties the error and keeps
  the message.
\<close>

lemma notices_before_request:
  "msg (fst (startGame_begin s)) = [] \<and> error (fst (startGame_begin s)) = [] \<and>
   msg (fst (submitGuess_begin Number s)) = [] \<and>
   (valid_guess Number s \<longrightarrow> error (fst (submitGuess_begin Number s)) = []) \<and>
   msg (fst (resetGame_begin s)) = msg s \<and> error (fst (resetGame_begin s)) = []"
  by (cases "valid_guess Number s")
     (simp_all add: startGame_begin_def resetGame_begin_def submitGuess_begin_valid
       submitGuess_begin_invalid)

section \<open>The conversion of a decimal text\<close>

lemma of_char_digit: "d < 10 \<Longrightarrow> (of_char (digit d) :: nat) = 48 + d"
  by (simp add: digit_def)

lemma is_digit_digit: "d < 10 \<Longrightarrow> is_digit (digit d)"
  by (simp add: is_digit_def of_char_digit)

lemma digit_of_digit: "d < 10 \<Longrightarrow> digit_of (digit d) = Some d"
  by (simp add: digit_of_def of_char_digit)

lemma decimal_digits: "list_all is_digit (decimal n)"
proof (induction n rule: decimal.induct)
  case (1 n)
  show ?case
  proof (cases "n < 10")
    case True
    then show ?thesis by (subst decimal.simps) (simp add: is_digit_digit)
  next
    case False
    with 1 show ?thesis by (subst decimal.simps) (simp add: is_digit_digit)
  qed
qed

lemma decimal_nonempty: "decimal n \<noteq> []"
  by (subst decimal.simps) simp

lemma radix_value_append:
  "radix_value b (xs @ ys) acc =
     (case radix_value b xs acc of None \<Rightarrow> None | Some a \<Rightarrow> radix_value b ys a)"
  by (induction xs arbitrary: acc) (simp_all split: option.splits)

lemma radix_decimal: "radix_value 10 (decimal n) 0 = Some n"
proof (induction n rule: decimal.induct)
  case (1 n)
  show ?case
  proof (cases "n < 10")
    case True
    then show ?thesis by (subst decimal.simps) (simp add: digit_of_digit)
  next
    case False
    with 1 show ?thesis
      by (subst decimal.simps) (simp add: radix_value_append digit_of_digit)
  qed
qed

lemma startsWith_hd: "startsWith (c # cs) w \<Longrightarrow> w \<noteq> [] \<Longrightarrow> hd w = c"
  by (cases w) simp_all

lemma white_space_heads:
  "\<forall>w \<in> set white_space. w \<noteq> [] \<and> \<not> is_digit (hd w)"
  "\<forall>w \<in> set (map rev white_space). w \<noteq> [] \<and> \<not> is_digit (hd w)"
  by (simp_all add: white_space_def is_digit_def)

lemma digit_not_space:
  assumes "is_digit c"
  shows "find (startsWith (c # cs)) white_space = None"
    and "find (startsWith (c # cs)) (map rev white_space) = None"
  using assms white_space_heads startsWith_hd unfolding find_None_iff by blast+

lemma strip_digit:
  assumes "s \<noteq> []" and "is_digit (hd s)"
  shows "strip white_space s = s" and "strip (map rev white_space) s = s"
proof -
  from assms obtain c cs where s: "s = c # cs" "is_digit c" by (cases s) auto
  show "strip white_space s = s"
    unfolding s by (subst strip.simps) (simp add: digit_not_space [OF s(2)])
  show "strip (map rev white_space) s = s"
    unfolding s by (subst strip.simps) (simp add: digit_not_space [OF s(2)])
qed

lemma trim_digits:
  assumes "s \<noteq> []" and "list_all is_digit s"
  shows "trim s = s"
proof -
  from assms have "is_digit (hd s)" by (cases s) simp_all
  moreover from assms have "is_digit (hd (rev s))"
    by (simp add: hd_rev list_all_iff)
  ultimately show ?thesis
    using assms(1) by (simp add: trim_def trimStart_def trimEnd_def strip_digit)
qed


lemma digit_not_letter:
  assumes "is_digit c"
  shows "c \<noteq> CHR ''x''" "c \<noteq> CHR ''X''" "c \<noteq> CHR ''o''" "c \<noteq> CHR ''O''"
    "c \<noteq> CHR ''b''" "c \<noteq> CHR ''B''" "c \<noteq> CHR ''+''" "c \<noteq> CHR ''-''" "c \<noteq> CHR ''I''"
  using assms by (auto simp add: is_digit_def)

lemma non_decimal_digits:
  assumes "list_all is_digit s"
  shows "non_decimal s = None"
proof (cases s)
  case Nil
  then show ?thesis by (simp add: non_decimal_def)
next
  case (Cons c0 t)
  show ?thesis
  proof (cases t)
    case Nil
    with Cons show ?thesis by (simp add: non_decimal_def)
  next
    case (Cons c1 ds)
    with assms \<open>s = c0 # t\<close> have "is_digit c1" by simp
    with Cons \<open>s = c0 # t\<close> show ?thesis
      by (simp add: non_decimal_def digit_not_letter)
  qed
qed

lemma unsigned_decimal_digits:
  assumes "s \<noteq> []" and "list_all is_digit s" and "radix_value 10 s 0 = Some n"
  shows "unsigned_decimal s = Some (of_nat n)"
proof -
  from assms(2) have tw: "takeWhile is_digit s = s" and dw: "dropWhile is_digit s = []"
    by (simp_all add: list_all_iff)
  show ?thesis
    unfolding unsigned_decimal_def tw dw Let_def
    using assms(1,3) by (simp add: exponent_part_def pow_def)
qed

lemma log2_up_nonneg: "0 \<le> log2_up a"
  by (induction a rule: log2_up.induct) (subst log2_up.simps, simp)

lemma log2_up_le: "1 \<le> a \<Longrightarrow> 2 ^ nat (log2_up a) \<le> a"
proof (induction a rule: log2_up.induct)
  case (1 a)
  show ?case
  proof (cases "2 \<le> a")
    case True
    then have "1 \<le> a / 2" by simp
    with 1 True have "2 ^ nat (log2_up (a / 2)) \<le> a / 2" by simp
    moreover have "nat (log2_up (a / 2) + 1) = Suc (nat (log2_up (a / 2)))"
      using log2_up_nonneg [of "a / 2"] by simp
    ultimately show ?thesis using True by (subst log2_up.simps) simp
  next
    case False
    with 1 show ?thesis by (subst log2_up.simps) simp
  qed
qed

lemma round_even_of_int: "round_even (of_int z) = z"
  by (simp add: round_even_def)

lemma to_double_of_nat:
  assumes "k < 2 ^ 53"
  shows "to_double (of_nat k) = Finite (of_nat k)"
proof (cases "k = 0")
  case True
  then show ?thesis by (simp add: to_double_def)
next
  case False
  let ?a = "rat_of_nat k"
  let ?e = "log2_up ?a"
  from False have a1: "1 \<le> ?a" by simp
  have e0: "0 \<le> ?e" by (rule log2_up_nonneg)
  have "(2::rat) ^ nat ?e \<le> ?a" using a1 by (rule log2_up_le)
  also have "?a < 2 ^ 53" using assms by (metis of_nat_less_iff of_nat_numeral of_nat_power)
  finally have "(2::rat) ^ nat ?e < 2 ^ 53" .
  then have "nat ?e < 53" by (rule power_less_imp_less_exp [rotated]) simp
  with e0 have e52: "?e \<le> 52" by simp
  define p where "p = nat (52 - ?e)"
  have ulp: "pow 2 (max ?e (- 1022) - 52) = 1 / 2 ^ p"
  proof -
    from e0 have "max ?e (- 1022) = ?e" by simp
    moreover from e52 have "\<not> 0 \<le> ?e - 52 \<or> ?e - 52 = 0" by linarith
    ultimately show ?thesis using e52 by (auto simp add: pow_def p_def)
  qed
  have q: "?a / (1 / 2 ^ p) = of_int (int k * 2 ^ p)" by simp
  have r: "rat_of_int (int k * 2 ^ p) * (1 / 2 ^ p) = ?a" by simp
  have big: "\<not> pow 2 1024 \<le> ?a"
  proof -
    have "?a < 2 ^ 53" by fact
    also have "(2::rat) ^ 53 < 2 ^ 1024" by (rule power_strict_increasing) simp_all
    finally show ?thesis by (simp add: pow_def)
  qed
  have ex: "exponent_of ?a = ?e" using a1 by (simp add: exponent_of_def)
  have ab: "\<bar>?a\<bar> = ?a" by simp
  have nz: "?a \<noteq> 0" "0 < ?a" using False by simp_all
  show ?thesis
    unfolding to_double_def Let_def ab ex ulp q round_even_of_int r
    using big nz by (simp only: if_False if_True)
qed

lemma js_Number_decimal:
  assumes "k < 2 ^ 53"
  shows "js_Number (decimal k) = Finite (of_nat k)" and "\<not> isBlank (decimal k)"
proof -
  have t: "trim (decimal k) = decimal k"
    by (rule trim_digits [OF decimal_nonempty decimal_digits])
  have h: "is_digit (hd (decimal k))"
    using decimal_nonempty [of k] decimal_digits [of k] by (cases "decimal k") simp_all
  have i: "decimal k \<noteq> ''Infinity''"
  proof
    assume "decimal k = ''Infinity''"
    with h show False by (simp add: is_digit_def)
  qed
  from h have s: "hd (decimal k) \<noteq> CHR ''+''" "hd (decimal k) \<noteq> CHR ''-''"
    by (simp_all add: digit_not_letter)
  have u: "unsigned_decimal (decimal k) = Some (of_nat k)"
    by (rule unsigned_decimal_digits [OF decimal_nonempty decimal_digits radix_decimal])
  show "js_Number (decimal k) = Finite (of_nat k)"
    using decimal_nonempty [of k] s i
    by (simp add: js_Number_def t non_decimal_digits [OF decimal_digits]
        unsigned_literal_def u to_double_of_nat [OF assms])
  show "\<not> isBlank (decimal k)"
    using decimal_nonempty [of k] by (simp add: isBlank_def t)
qed

lemma floor_numeral_div_rat:
  "\<lfloor>numeral a / numeral b :: rat\<rfloor> = numeral a div numeral b"
  by (metis floor_divide_of_int_eq of_int_numeral)

lemma long_literal_value:
  "unsigned_decimal ''1000.0000000000000001'' = Some (10000000000000000001 / 10 ^ 16)"
  by (simp add: unsigned_decimal_def is_digit_def exponent_part_def digit_of_def pow_def)

lemma long_literal_double: "to_double (10000000000000000001 / 10 ^ 16) = Finite 1000"
proof -
  let ?q = "10000000000000000001 / 10 ^ 16 :: rat"
  have a: "\<bar>?q\<bar> = ?q" by simp
  have e: "max (exponent_of ?q) (- 1022) = 9"
    by (simp add: exponent_of_def log2_up.simps)
  have u: "pow 2 (9 - 52) = 1 / 2 ^ 43" by (simp add: pow_def)
  have r: "round_even (?q / (1 / 2 ^ 43)) = 1000 * 2 ^ 43"
    by (simp add: round_even_def Let_def floor_numeral_div_rat)
  have v: "rat_of_int (1000 * 2 ^ 43) * (1 / 2 ^ 43) = 1000" by simp
  have w: "\<not> pow 2 1024 \<le> 1000" by (simp add: pow_def)
  have p: "0 < ?q" "?q \<noteq> 0" by simp_all
  show ?thesis
    unfolding to_double_def Let_def a e u r v using w p by (simp only: if_False if_True)
qed

lemma long_literal_trim: "trim ''1000.0000000000000001'' = ''1000.0000000000000001''"
  by code_simp

lemma long_literal_Number: "js_Number ''1000.0000000000000001'' = Finite 1000"
  by (simp add: js_Number_def long_literal_trim non_decimal_def unsigned_literal_def
      long_literal_value long_literal_double del: power_numeral)

lemma trim_abc: "trim ''abc'' = ''abc''"
  by code_simp

lemma js_Number_abc: "js_Number ''abc'' = NaN"
  by (simp add: js_Number_def trim_abc non_decimal_def unsigned_literal_def
      unsigned_decimal_def is_digit_def)

lemma decimal_2000: "decimal 2000 = ''2000''"
  by code_simp

lemma decimal_1000: "decimal 1000 = ''1000''"
  by code_simp

section \<open>The message of a guess without feedback\<close>




section \<open>The properties\<close>




text \<open>
  C2, as the code has it. For every failure response: when the content type names
  JSON and the body parses to a value other than \<open>null\<close>, the error text is the
  first of \<open>error\<close>, \<open>message\<close>, \<open>detail\<close> that is present and not \<open>null\<close> if that value
  is a string, and \<open>HTTP <status>\<close> at once if it is not a string or there is none;
  when the content type does not name JSON, the error text is the trimmed text of
  the body, or \<open>HTTP <status>\<close> if that is empty.
\<close>

theorem readBody_failure_text:
  assumes "\<not> res_ok res"
  shows "(includes_str (ct_of res) ''application/json'' \<and> body res = Some t \<and>
          parsed res = Some j \<and> j \<noteq> JNull \<longrightarrow>
            readBody res =
              Inr \<lparr>ok = False, data = None, text_v = None,
                   err = Some (case first_present j of
                                 Some (JString m) \<Rightarrow> m
                               | _ \<Rightarrow> ''HTTP '' @ decimal (status res))\<rparr>) \<and>
         (\<not> includes_str (ct_of res) ''application/json'' \<longrightarrow>
            readBody res =
              Inr \<lparr>ok = False, data = None, text_v = None,
                   err = Some (let t = trim (case body res of None \<Rightarrow> [] | Some t \<Rightarrow> t)
                               in if t = [] then ''HTTP '' @ decimal (status res) else t)\<rparr>)"
  using assms
  by (auto simp add: readBody_fail_json readBody_fail_text first_present_coalesce)

theorem readBody_failure_text_witness:
  "\<not> res_ok (json_response 500 session_expired_body) \<and>
   readBody (json_response 500 session_expired_body) =
     Inr \<lparr>ok = False, data = None, text_v = None, err = Some ''session expired''\<rparr> \<and>
   \<not> res_ok (text_response 404 ''  Not Found  '') \<and>
   readBody (text_response 404 ''  Not Found  '') =
     Inr \<lparr>ok = False, data = None, text_v = None, err = Some ''Not Found''\<rparr>"
proof -
  let ?r = "json_response 500 session_expired_body"
  let ?q = "text_response 404 ''  Not Found  ''"
  have a: "\<not> res_ok ?r" by (simp add: res_ok_def json_response_def)
  have b: "\<not> res_ok ?q" by (simp add: res_ok_def text_response_def)
  have c: "includes_str (ct_of ?r) ''application/json''"
    by (simp add: ct_of_def json_response_def json_ct)
  have d: "\<not> includes_str (ct_of ?q) ''application/json''"
    by code_simp
  have e: "trim ''  Not Found  '' = ''Not Found''" by code_simp
  have f: "first_present session_expired_body = Some (JString ''session expired'')"
    by (simp add: first_present_def session_expired_body_def opt_prop_def nullish_def)
  have g: "session_expired_body \<noteq> JNull" by (simp add: session_expired_body_def)
  from readBody_failure_text [OF a, of "json_text session_expired_body" session_expired_body] c f g
  have 1: "readBody ?r =
     Inr \<lparr>ok = False, data = None, text_v = None, err = Some ''session expired''\<rparr>"
    by (simp add: json_response_def)
  from readBody_failure_text [OF b] d e
  have 2: "readBody ?q =
     Inr \<lparr>ok = False, data = None, text_v = None, err = Some ''Not Found''\<rparr>"
    by (simp add: text_response_def)
  from a b 1 2 show ?thesis by simp
qed

text \<open>
  C2 as stated fails: a JSON body whose first present property is not a string gives
  \<open>HTTP 500\<close> at once, not the trimmed text of the body, which is not empty.
\<close>

theorem non_string_field_gives_status_text:
  "readBody (json_response 500 error_42_body) =
     Inr \<lparr>ok = False, data = None, text_v = None, err = Some ''HTTP 500''\<rparr> \<and>
   body (json_response 500 error_42_body) =
     Some ([CHR ''{'', CHR 0x22] @ ''error'' @ [CHR 0x22] @ '':42}'') \<and>
   trim ([CHR ''{'', CHR 0x22] @ ''error'' @ [CHR 0x22] @ '':42}'') =
     [CHR ''{'', CHR 0x22] @ ''error'' @ [CHR 0x22] @ '':42}''"
proof -
  have "readBody (json_response 500 error_42_body) =
     Inr \<lparr>ok = False, data = None, text_v = None, err = Some ''HTTP 500''\<rparr>"
    by code_simp
  moreover have "body (json_response 500 error_42_body) =
     Some ([CHR ''{'', CHR 0x22] @ ''error'' @ [CHR 0x22] @ '':42}'')"
    by (simp add: json_response_def error_42_body_def quoted_def)
  moreover have "trim ([CHR ''{'', CHR 0x22] @ ''error'' @ [CHR 0x22] @ '':42}'') =
     [CHR ''{'', CHR 0x22] @ ''error'' @ [CHR 0x22] @ '':42}''"
    by code_simp
  ultimately show ?thesis by simp
qed

text \<open>
  C3. For every valid guess whose response is read as a success and holds a
  feedback, the count of guesses grows by exactly 1, \<open>finished\<close> becomes whether the
  feedback is \<open>CORRECT\<close>, and the message is the label of the feedback, then
  \<open>. Total guess\<close> and the new count; the labels are \<open>Too High\<close>, \<open>Too Low\<close> and
  \<open>Correct\<close>.
\<close>

theorem guess_feedback_outcome:
  assumes "valid_guess Number s"
    and "read_ok (fetch (guess_request (Number (value_v s)))) = Some b"
    and "toFeedback b = Some fb"
  shows "tries (fst (submitGuess Number fetch s)) = tries s + 1 \<and>
         finished (fst (submitGuess Number fetch s)) = (fb = CORRECT) \<and>
         msg (fst (submitGuess Number fetch s)) =
           labelFor fb @ ''. Total guess '' @ decimal (tries s + 1) \<and>
         error (fst (submitGuess Number fetch s)) = [] \<and>
         labelFor TOO_HIGH = ''Too High'' \<and> labelFor TOO_LOW = ''Too Low'' \<and>
         labelFor CORRECT = ''Correct''"
  using assms by (simp add: submitGuess_valid submitGuess_resume_feedback)

theorem guess_feedback_outcome_witness:
  "valid_guess digits_Number (guessing_state ''500'' 4 False) \<and>
   read_ok (answer (json_response 200 (feedback_body ''TOO_LOW''))
              (guess_request (digits_Number ''500''))) =
     Some \<lparr>ok = True, data = Some (feedback_body ''TOO_LOW''), text_v = None, err = None\<rparr> \<and>
   toFeedback \<lparr>ok = True, data = Some (feedback_body ''TOO_LOW''), text_v = None, err = None\<rparr>
     = Some TOO_LOW \<and>
   tries (fst (submitGuess digits_Number
            (answer (json_response 200 (feedback_body ''TOO_LOW'')))
            (guessing_state ''500'' 4 False))) = 5 \<and>
   finished (fst (submitGuess digits_Number
            (answer (json_response 200 (feedback_body ''TOO_LOW'')))
            (guessing_state ''500'' 4 False))) = False \<and>
   msg (fst (submitGuess digits_Number
            (answer (json_response 200 (feedback_body ''TOO_LOW'')))
            (guessing_state ''500'' 4 False))) = ''Too Low. Total guess 5''"
proof -
  let ?s = "guessing_state ''500'' 4 False"
  let ?b = "\<lparr>ok = True, data = Some (feedback_body ''TOO_LOW''), text_v = None, err = None\<rparr>"
  let ?f = "answer (json_response 200 (feedback_body ''TOO_LOW''))"
  have v: "valid_guess digits_Number ?s" by (rule valid_500)
  have r: "read_ok (?f (guess_request (digits_Number (value_v ?s)))) = Some ?b"
    by (simp add: answer_def read_ok_feedback)
  have t: "toFeedback ?b = Some TOO_LOW"
    by (simp add: toFeedback_feedback as_feedback_def)
  have d: "decimal 5 = ''5''" by code_simp
  have g: "value_v ?s = ''500''" "tries ?s = 4" by (simp_all add: guessing_state_def)
  from guess_feedback_outcome [of digits_Number ?s ?f, OF v r t] v r t d g
  show ?thesis by simp
qed

text \<open>
  C4. For every valid guess whose answer is not read as a success (\<open>fetch\<close>
  rejected, \<open>readBody\<close> threw, or the response was a failure with its error text),
  the count of guesses and \<open>finished\<close> are unchanged, no message is set, and the
  error shown is the text of the failure: the error text \<open>readBody\<close> resolved with
  when the response was a failure.
\<close>

theorem guess_error_outcome:
  assumes "valid_guess Number s"
    and "read_ok (fetch (guess_request (Number (value_v s)))) = None"
  shows "tries (fst (submitGuess Number fetch s)) = tries s \<and>
         finished (fst (submitGuess Number fetch s)) = finished s \<and>
         msg (fst (submitGuess Number fetch s)) = [] \<and>
         error (fst (submitGuess Number fetch s)) =
           failure_message (fetch (guess_request (Number (value_v s)))) ''Guess failed'' \<and>
         (\<forall>res b e. fetch (guess_request (Number (value_v s))) = Inr res \<and>
                    readBody res = Inr b \<and> err b = Some e \<longrightarrow>
                    error (fst (submitGuess Number fetch s)) = e)"
proof -
  let ?r = "fetch (guess_request (Number (value_v s)))"
  have e: "fst (submitGuess Number fetch s) =
      s\<lparr>error := [], msg := [], loading := True,
        error := failure_message ?r ''Guess failed'', loading := False\<rparr>"
    using assms by (simp add: submitGuess_valid submitGuess_resume_fail)
  have "failure_message ?r ''Guess failed'' = e"
    if "?r = Inr res" "readBody res = Inr b" "err b = Some e" for res b e
    using that by (simp add: failure_message_def)
  with e show ?thesis by simp
qed

theorem guess_error_outcome_witness:
  "valid_guess digits_Number (guessing_state ''500'' 4 False) \<and>
   read_ok (answer (json_response 500 session_expired_body)
              (guess_request (digits_Number ''500''))) = None \<and>
   tries (fst (submitGuess digits_Number
            (answer (json_response 500 session_expired_body))
            (guessing_state ''500'' 4 False))) = 4 \<and>
   msg (fst (submitGuess digits_Number
            (answer (json_response 500 session_expired_body))
            (guessing_state ''500'' 4 False))) = [] \<and>
   error (fst (submitGuess digits_Number
            (answer (json_response 500 session_expired_body))
            (guessing_state ''500'' 4 False))) = ''session expired''"
proof -
  let ?s = "guessing_state ''500'' 4 False"
  let ?f = "answer (json_response 500 session_expired_body)"
  have v: "valid_guess digits_Number ?s" by (rule valid_500)
  have r: "read_ok (?f (guess_request (digits_Number (value_v ?s)))) = None"
    by (simp add: answer_def read_ok_def readBody_session_expired)
  have g: "value_v ?s = ''500''" "tries ?s = 4" by (simp_all add: guessing_state_def)
  have m: "failure_message (?f (guess_request (digits_Number (value_v ?s)))) ''Guess failed''
             = ''session expired''"
    by (simp add: answer_def failure_message_def readBody_session_expired)
  from guess_error_outcome [of digits_Number ?s ?f, OF v r] v r g m
  show ?thesis by simp
qed

text \<open>
  C5. The claim: the interpreter never raises; every response, whatever its status,
  content type and body, resolves to a classified outcome. \<open>readBody\<close> does raise: on
  a response of status 500 with content type \<open>application/json\<close> and a body that is
  not JSON, \<open>res.json()\<close> reads the body and rejects, the empty \<open>catch\<close> swallows
  that, and \<open>res.text()\<close>, outside the \<open>try\<close>, rejects with the TypeError of a body
  that was read. \<open>readBody\<close> rejects with that TypeError instead of resolving with
  an error text.
\<close>

theorem readBody_rejects_on_second_read:
  "readBody (broken_json_response 500 ''<html>Internal Server Error</html>'')
     = Inl (ErrorObj body_used_message)"
  by (simp add: readBody_fail_json_throws broken_json_response_def res_ok_def ct_of_def
      json_ct)

text \<open>
  C6. The claim: in every reachable state at most one of the message and the error
  is non-empty, and every intent clears both before it computes its outcome; a
  failing reset issued while the message of a guess is shown leaves only the error.
  \<open>startGame\<close> and \<open>submitGuess\<close> clear both; \<open>resetGame\<close> clears the error only. After
  a started game, a guess answered \<open>TOO_LOW\<close> and a reset answered with status 500
  and an empty body, the message of the guess and the error of the reset are both
  set.
\<close>

theorem failing_reset_keeps_message:
  "msg (run digits_Number (low_events @ [(Reset, answer (text_response 500 []))]) init_state)
     = ''Too Low. Total guess 1'' \<and>
   error (run digits_Number (low_events @ [(Reset, answer (text_response 500 []))]) init_state)
     = ''HTTP 500''"
  by code_simp

text \<open>
  C7, as the code has it. A guess that is not valid (the input is blank, or the
  number it converts to is not an integer from 0 to 1000) issues no request, sets one
  of the two validation messages as the error, sets no message and leaves the count
  of guesses and \<open>finished\<close> unchanged. A valid guess (the input is not blank and
  converts to an integer \<open>k\<close> from 0 to 1000) issues exactly one request: the POST of
  \<open>{"number":k}\<close> to \<open>/api\<close>. The decimal text of every integer from 0 to 1000 is a
  valid guess under the conversion of the language.
\<close>

theorem guess_validation:
  "(\<not> valid_guess Number s \<longrightarrow>
      snd (submitGuess Number fetch s) = [] \<and>
      error (fst (submitGuess Number fetch s)) =
        (if isBlank (value_v s) then ''Please enter a number''
         else ''Enter an integer between 0 and 1000'') \<and>
      error (fst (submitGuess Number fetch s)) \<noteq> [] \<and>
      msg (fst (submitGuess Number fetch s)) = [] \<and>
      tries (fst (submitGuess Number fetch s)) = tries s \<and>
      finished (fst (submitGuess Number fetch s)) = finished s) \<and>
   (valid_guess Number s \<longrightarrow>
      snd (submitGuess Number fetch s) = [guess_request (Number (value_v s))]) \<and>
   (\<forall>k::nat. Number (value_v s) = Finite (of_nat k) \<longrightarrow>
      url (guess_request (Number (value_v s))) = ''/api'' \<and>
      http_method (guess_request (Number (value_v s))) = ''POST'' \<and>
      payload (guess_request (Number (value_v s))) =
        Some ([CHR ''{'', CHR 0x22] @ ''number'' @ [CHR 0x22, CHR '':''] @ decimal k @
              [CHR ''}''])) \<and>
   (\<forall>k::nat. k \<le> 1000 \<and> value_v s = decimal k \<longrightarrow>
      valid_guess js_Number s \<and>
      snd (submitGuess js_Number fetch s) = [guess_request (Finite (of_nat k))])"
proof -
  have "valid_guess js_Number s \<and>
        snd (submitGuess js_Number fetch s) = [guess_request (Finite (of_nat k))]"
    if "k \<le> 1000" "value_v s = decimal k" for k
  proof -
    from that(1) have k: "k < 2 ^ 53" by simp
    have n: "js_Number (value_v s) = Finite (of_nat k)"
      and b: "\<not> isBlank (value_v s)"
      using js_Number_decimal [OF k] by (simp_all add: that(2))
    from n b that(1) have v: "valid_guess js_Number s"
      unfolding valid_guess_def by blast
    with n show ?thesis by (simp add: submitGuess_valid)
  qed
  then have 4: "\<forall>k::nat. k \<le> 1000 \<and> value_v s = decimal k \<longrightarrow>
      valid_guess js_Number s \<and>
      snd (submitGuess js_Number fetch s) = [guess_request (Finite (of_nat k))]"
    by blast
  have 1: "\<not> valid_guess Number s \<longrightarrow>
      snd (submitGuess Number fetch s) = [] \<and>
      error (fst (submitGuess Number fetch s)) =
        (if isBlank (value_v s) then ''Please enter a number''
         else ''Enter an integer between 0 and 1000'') \<and>
      error (fst (submitGuess Number fetch s)) \<noteq> [] \<and>
      msg (fst (submitGuess Number fetch s)) = [] \<and>
      tries (fst (submitGuess Number fetch s)) = tries s \<and>
      finished (fst (submitGuess Number fetch s)) = finished s"
    by (simp add: submitGuess_invalid)
  have 2: "valid_guess Number s \<longrightarrow>
      snd (submitGuess Number fetch s) = [guess_request (Number (value_v s))]"
    by (simp add: submitGuess_valid)
  have 3: "\<forall>k::nat. Number (value_v s) = Finite (of_nat k) \<longrightarrow>
      url (guess_request (Number (value_v s))) = ''/api'' \<and>
      http_method (guess_request (Number (value_v s))) = ''POST'' \<and>
      payload (guess_request (Number (value_v s))) =
        Some ([CHR ''{'', CHR 0x22] @ ''number'' @ [CHR 0x22, CHR '':''] @ decimal k @
              [CHR ''}''])"
    by (simp add: guess_request_def stringify_of_nat)
  from 1 2 3 4 show ?thesis by (intro conjI)
qed

theorem guess_validation_witness:
  "\<not> valid_guess js_Number (guessing_state ''abc'' 4 False) \<and>
   snd (submitGuess js_Number ok_transport (guessing_state ''abc'' 4 False)) = [] \<and>
   error (fst (submitGuess js_Number ok_transport (guessing_state ''abc'' 4 False))) =
     ''Enter an integer between 0 and 1000'' \<and>
   tries (fst (submitGuess js_Number ok_transport (guessing_state ''abc'' 4 False))) = 4 \<and>
   \<not> valid_guess js_Number (guessing_state ''2000'' 4 False) \<and>
   snd (submitGuess js_Number ok_transport (guessing_state ''2000'' 4 False)) = [] \<and>
   error (fst (submitGuess js_Number ok_transport (guessing_state ''2000'' 4 False))) =
     ''Enter an integer between 0 and 1000'' \<and>
   \<not> valid_guess js_Number (guessing_state ''   '' 4 False) \<and>
   snd (submitGuess js_Number ok_transport (guessing_state ''   '' 4 False)) = [] \<and>
   error (fst (submitGuess js_Number ok_transport (guessing_state ''   '' 4 False))) =
     ''Please enter a number'' \<and>
   valid_guess js_Number (guessing_state ''500'' 4 False) \<and>
   snd (submitGuess js_Number ok_transport (guessing_state ''500'' 4 False)) =
     [guess_request (Finite 500)] \<and>
   payload (guess_request (Finite 500)) =
     Some ([CHR ''{'', CHR 0x22] @ ''number'' @ [CHR 0x22] @ '':500}'')"
proof -
  let ?a = "guessing_state ''abc'' 4 False"
  let ?b = "guessing_state ''   '' 4 False"
  let ?c = "guessing_state ''500'' 4 False"
  let ?d = "guessing_state ''2000'' 4 False"
  have sel: "value_v ?a = ''abc''" "value_v ?b = ''   ''" "value_v ?c = ''500''"
    "value_v ?d = ''2000''" "tries ?a = 4"
    by (simp_all add: guessing_state_def)
  have n2: "js_Number ''2000'' = Finite (of_nat 2000)"
    using js_Number_decimal(1) [of 2000] by (simp add: decimal_2000)
  have n5: "js_Number ''500'' = Finite (of_nat 500)"
    using js_Number_decimal(1) [of 500] by (simp add: decimal_500)
  have na: "\<not> valid_guess js_Number ?a"
    by (simp add: valid_guess_def sel js_Number_abc)
  have nb: "\<not> valid_guess js_Number ?b"
    by (simp add: valid_guess_def sel blank_spaces)
  have nd: "\<not> valid_guess js_Number ?d"
    by (simp add: valid_guess_def sel n2)
  have bd: "\<not> isBlank ''2000''" by code_simp
  note A = guess_validation [of js_Number ?a ok_transport]
  note B = guess_validation [of js_Number ?b ok_transport]
  note C = guess_validation [of js_Number ?c ok_transport]
  note D = guess_validation [of js_Number ?d ok_transport]
  have "500 \<le> (1000::nat) \<and> value_v ?c = decimal 500" by (simp add: sel decimal_500)
  with C [THEN conjunct2, THEN conjunct2, THEN conjunct2, rule_format, of 500]
  have vc: "valid_guess js_Number ?c"
    and 3: "snd (submitGuess js_Number ok_transport ?c) = [guess_request (Finite 500)]"
    by simp_all
  from A na have 1:
    "snd (submitGuess js_Number ok_transport ?a) = []"
    "error (fst (submitGuess js_Number ok_transport ?a)) =
       ''Enter an integer between 0 and 1000''"
    "tries (fst (submitGuess js_Number ok_transport ?a)) = 4"
    by (simp_all add: sel not_blank_abc)
  from B nb have 2:
    "snd (submitGuess js_Number ok_transport ?b) = []"
    "error (fst (submitGuess js_Number ok_transport ?b)) = ''Please enter a number''"
    by (simp_all add: sel blank_spaces)
  from D nd have 5:
    "snd (submitGuess js_Number ok_transport ?d) = []"
    "error (fst (submitGuess js_Number ok_transport ?d)) =
       ''Enter an integer between 0 and 1000''"
    by (simp_all add: sel bd)
  from C [THEN conjunct2, THEN conjunct2, THEN conjunct1, rule_format, of 500] n5
  have 4: "payload (guess_request (Finite 500)) =
     Some ([CHR ''{'', CHR 0x22] @ ''number'' @ [CHR 0x22] @ '':500}'')"
    by (simp add: sel decimal_500)
  from na nb nd vc 1 2 3 4 5 show ?thesis by simp
qed

text \<open>
  C7 as stated fails: the test is made on the converted number, not on the text. The
  input \<open>1000.0000000000000001\<close> is not an integer and lies above 1000; its conversion
  is the double 1000, and the guess is submitted with the number 1000.
\<close>

theorem rounded_input_is_submitted:
  "unsigned_decimal ''1000.0000000000000001'' = Some (10000000000000000001 / 10 ^ 16) \<and>
   (1000 :: rat) < 10000000000000000001 / 10 ^ 16 \<and>
   js_Number ''1000.0000000000000001'' = Finite 1000 \<and>
   snd (submitGuess js_Number ok_transport
          (guessing_state ''1000.0000000000000001'' 4 False)) =
     [guess_request (Finite 1000)] \<and>
   payload (guess_request (Finite 1000)) =
     Some ([CHR ''{'', CHR 0x22] @ ''number'' @ [CHR 0x22] @ '':1000}'')"
proof -
  let ?s = "guessing_state ''1000.0000000000000001'' 4 False"
  have sel: "value_v ?s = ''1000.0000000000000001''" by (simp add: guessing_state_def)
  have n: "js_Number (value_v ?s) = Finite (of_nat 1000)"
    by (simp add: sel long_literal_Number)
  have b: "\<not> isBlank (value_v ?s)"
    by (simp add: sel isBlank_def long_literal_trim)
  have "(1000::nat) \<le> 1000" by simp
  with n b have v: "valid_guess js_Number ?s"
    unfolding valid_guess_def by blast
  have 1: "snd (submitGuess js_Number ok_transport ?s) = [guess_request (Finite 1000)]"
    using n by (simp add: submitGuess_valid [OF v])
  have 2: "payload (guess_request (Finite 1000)) =
     Some ([CHR ''{'', CHR 0x22] @ ''number'' @ [CHR 0x22] @ '':1000}'')"
    using stringify_of_nat [of 1000] by (simp add: guess_request_def decimal_1000)
  have 3: "(1000 :: rat) < 10000000000000000001 / 10 ^ 16" by simp
  from long_literal_value long_literal_Number 1 2 3 show ?thesis by simp
qed

text \<open>
  C8, as the code has it. A start or a reset sets \<open>finished\<close> to false when its answer
  is read as a success, and leaves it unchanged when it is not. A guess sets
  \<open>finished\<close> to whether the feedback is \<open>CORRECT\<close>, and adds exactly 1 to the count of
  guesses, when it is valid and its answer is read as a success; otherwise it leaves
  both unchanged. In every state reached from the initial state, \<open>finished\<close> holds
  only after a guess that read the feedback \<open>CORRECT\<close>.
\<close>

theorem finished_and_tries_by_outcome:
  "finished (fst (startGame fetch s)) =
     (if read_ok (fetch start_request) = None then finished s else False) \<and>
   finished (fst (resetGame fetch s)) =
     (if read_ok (fetch reset_request) = None then finished s else False) \<and>
   finished (fst (submitGuess Number fetch s)) =
     (case guess_read Number fetch s of
        None \<Rightarrow> finished s
      | Some b \<Rightarrow> toFeedback b = Some CORRECT) \<and>
   tries (fst (submitGuess Number fetch s)) =
     (case guess_read Number fetch s of None \<Rightarrow> tries s | Some b \<Rightarrow> tries s + 1) \<and>
   (finished (run Number evs init_state) \<longrightarrow>
      (\<exists>pre fetch' post b. evs = pre @ (Guess, fetch') # post \<and>
         guess_read Number fetch' (run Number pre init_state) = Some b \<and>
         toFeedback b = Some CORRECT))"
  using finished_run [of Number evs]
  by (simp add: startGame_finished resetGame_finished submitGuess_finished)

theorem finished_and_tries_by_outcome_witness:
  "finished (run digits_Number won_events init_state) \<and>
   (\<exists>pre fetch' post b. won_events = pre @ (Guess, fetch') # post \<and>
      guess_read digits_Number fetch' (run digits_Number pre init_state) = Some b \<and>
      toFeedback b = Some CORRECT)"
  using finished_and_tries_by_outcome [of ok_transport init_state digits_Number won_events]
  by (simp add: run_won)

text \<open>
  C8 as stated fails: a reset does not always set \<open>finished\<close> to false. After a game
  is won, a reset answered with status 500 leaves \<open>finished\<close> true.
\<close>

theorem failing_reset_keeps_finished:
  "finished (run digits_Number won_events init_state) \<and>
   finished (run digits_Number (won_events @ [(Reset, answer (text_response 500 []))])
     init_state)"
  by code_simp

text \<open>
  C9. \<open>startGame\<close>, and \<open>submitGuess\<close> on a valid guess, set \<open>loading\<close> before the
  request is issued, and whatever the transport answers (a success, a failure, a
  rejection of \<open>fetch\<close>), the rest of the handler ends with \<open>loading\<close> false.
\<close>

theorem loading_cleared_on_every_path:
  "loading (fst (startGame_begin s)) \<and>
   snd (startGame_begin s) = start_request \<and>
   \<not> loading (startGame_resume s1 r) \<and>
   startGame fetch s = (startGame_resume (fst (startGame_begin s)) (fetch start_request),
                        [start_request]) \<and>
   \<not> loading (fst (startGame fetch s)) \<and>
   (valid_guess Number s \<longrightarrow>
      loading (fst (submitGuess_begin Number s)) \<and>
      snd (submitGuess_begin Number s) = Some (guess_request (Number (value_v s))) \<and>
      submitGuess Number fetch s =
        (submitGuess_resume (fst (submitGuess_begin Number s))
           (fetch (guess_request (Number (value_v s)))),
         [guess_request (Number (value_v s))]) \<and>
      \<not> loading (fst (submitGuess Number fetch s))) \<and>
   \<not> loading (submitGuess_resume s1 r)"
  by (simp add: startGame_begin_def startGame_def startGame_resume_not_loading
      submitGuess_begin_valid submitGuess_valid submitGuess_resume_not_loading)

theorem loading_cleared_on_every_path_witness:
  "valid_guess digits_Number (guessing_state ''500'' 4 False) \<and>
   loading (fst (submitGuess_begin digits_Number (guessing_state ''500'' 4 False))) \<and>
   \<not> loading (fst (submitGuess digits_Number (\<lambda>rq. Inl NonError)
                      (guessing_state ''500'' 4 False))) \<and>
   loading (fst (startGame_begin init_state)) \<and>
   \<not> loading (fst (startGame (\<lambda>rq. Inl NonError) init_state))"
  using loading_cleared_on_every_path
          [of "guessing_state ''500'' 4 False" _ _ "\<lambda>rq. Inl NonError" digits_Number]
        loading_cleared_on_every_path [of init_state _ _ "\<lambda>rq. Inl NonError" digits_Number]
        valid_500 [of 4 False]
  by simp

text \<open>
  C10. A valid guess whose answer is read as a success sets \<open>finished\<close> to whether
  the feedback is \<open>CORRECT\<close>, whatever \<open>finished\<close> was: a guess that reads another
  feedback, or none, makes a finished game unfinished.
\<close>

theorem guess_overwrites_finished:
  assumes "valid_guess Number s"
    and "read_ok (fetch (guess_request (Number (value_v s)))) = Some b"
  shows "finished (fst (submitGuess Number fetch s)) = (toFeedback b = Some CORRECT)"
  using assms by (simp add: submitGuess_valid submitGuess_resume_ok)

theorem guess_overwrites_finished_witness:
  "finished (run digits_Number won_events init_state) \<and>
   valid_guess digits_Number (setValue ''500'' (run digits_Number won_events init_state)) \<and>
   \<not> finished (fst (submitGuess digits_Number
       (answer (json_response 200 (feedback_body ''TOO_LOW'')))
       (setValue ''500'' (run digits_Number won_events init_state)))) \<and>
   \<not> finished (fst (submitGuess digits_Number
       (answer (text_response 200 ''Nice try''))
       (setValue ''500'' (run digits_Number won_events init_state))))"
proof -
  let ?s = "setValue ''500'' (run digits_Number won_events init_state)"
  let ?lo = "answer (json_response 200 (feedback_body ''TOO_LOW''))"
  let ?tx = "answer (text_response 200 ''Nice try'')"
  have f: "finished (run digits_Number won_events init_state)" by (simp add: run_won)
  have v: "valid_guess digits_Number ?s" by (rule valid_setValue_500)
  have r1: "read_ok (?lo (guess_request (digits_Number (value_v ?s)))) =
      Some \<lparr>ok = True, data = Some (feedback_body ''TOO_LOW''), text_v = None, err = None\<rparr>"
    by (simp add: answer_def read_ok_feedback)
  have t1: "toFeedback
      \<lparr>ok = True, data = Some (feedback_body ''TOO_LOW''), text_v = None, err = None\<rparr>
        \<noteq> Some CORRECT"
    by (simp add: toFeedback_feedback as_feedback_def)
  have r2: "read_ok (?tx (guess_request (digits_Number (value_v ?s)))) =
      Some \<lparr>ok = True, data = None, text_v = Some (trim ''Nice try''), err = None\<rparr>"
    by (simp add: answer_def read_ok_text)
  have tr: "trim ''Nice try'' = ''Nice try''" by code_simp
  have t2: "toFeedback
      \<lparr>ok = True, data = None, text_v = Some (trim ''Nice try''), err = None\<rparr>
        \<noteq> Some CORRECT"
    by (simp add: toFeedback_text tr as_feedback_def)
  from guess_overwrites_finished [of digits_Number ?s ?lo, OF v r1] t1
  have 1: "\<not> finished (fst (submitGuess digits_Number ?lo ?s))" by simp
  from guess_overwrites_finished [of digits_Number ?s ?tx, OF v r2] t2
  have 2: "\<not> finished (fst (submitGuess digits_Number ?tx ?s))" by simp
  from f v 1 2 show ?thesis by simp
qed

end
